theory Spec2Isabelle
  imports Complex_Main "HOL-Library.Product_Lexorder" "HOL-Library.Multiset"
begin

section \<open>Heatmap tile generation (heatmaps/generate.py)\<close>

text \<open>
  A shallow embedding of \<^verbatim>\<open>src/heatmaps/generate.py\<close> (Python 2). Python floats are
  modelled by \<^typ>\<open>real\<close>: the arithmetic is exact, so the rounding of a float result,
  and its overflow to infinity, are outside the model. Python integers are \<^typ>\<open>int\<close>,
  numpy's 64-bit integers are \<^typ>\<open>int\<close> with the conversion from a float written out,
  zoom levels are \<^typ>\<open>nat\<close>. Every exception the modelled code can raise is a value of
  \<open>py_error\<close>; a function that can raise returns \<open>py_error + 'a\<close>, with \<open>Inl\<close> the
  exception.
\<close>

datatype py_error =
    ValueError | KeyError | IndexError | ZeroDivisionError | OverflowError | MemoryError
  | DatabaseError

subsection \<open>Global parameters\<close>

definition MIN_ZOOM :: nat where "MIN_ZOOM = 10"
definition MAX_ZOOM :: nat where "MAX_ZOOM = 16"
definition ZOOM_STEP :: nat where "ZOOM_STEP = 1"
definition RADIUS :: int where "RADIUS = 17500"
definition TILE_RESOLUTION :: int where "TILE_RESOLUTION = 256"

record zoom_profile =
  dotsize :: int
  opacity :: int
  cluster :: bool
  cluster_epsilon :: real
  cluster_neighbors :: int

definition profile :: "int \<Rightarrow> int \<Rightarrow> bool \<Rightarrow> real \<Rightarrow> int \<Rightarrow> zoom_profile" where
  "profile d op c e n =
     \<lparr>dotsize = d, opacity = op, cluster = c, cluster_epsilon = e, cluster_neighbors = n\<rparr>"

text \<open>The dict \<^verbatim>\<open>ZOOM_PARAMETERS\<close>; a zoom level that is not a key raises KeyError.\<close>

definition ZOOM_PARAMETERS :: "nat \<rightharpoonup> zoom_profile" where
  "ZOOM_PARAMETERS = map_of
     [(10, profile 10 1 True 0.5 4),
      (11, profile 10 1 True 0.5 4),
      (12, profile 15 1 True 0.5 4),
      (13, profile 15 1 True 0.65 4),
      (14, profile 20 1 True 0.65 4),
      (15, profile 40 1 True 0.8 4),
      (16, profile 60 1 True 0.8 4),
      (17, profile 80 1 False 1.0 1),
      (18, profile 100 1 False 1.0 2)]"

definition zoom_parameters :: "nat \<Rightarrow> py_error + zoom_profile" where
  "zoom_parameters zoom = (case ZOOM_PARAMETERS zoom of None \<Rightarrow> Inl KeyError | Some p \<Rightarrow> Inr p)"

definition RUN_BY_CATEGORY :: int where "RUN_BY_CATEGORY = 1"
definition RUN_BY_ZOOM :: int where "RUN_BY_ZOOM = 2"

subsection \<open>Mercator projection\<close>

text \<open>
  An arithmetic operation between a Python integer and a float converts the integer to a
  float first; the conversion raises OverflowError when the integer rounds to a magnitude
  above the largest double, that is from \<open>2^1024 - 2^970\<close> on.
\<close>

definition long_to_float :: "int \<Rightarrow> py_error + real" where
  "long_to_float n =
     (if 2 ^ 1024 - 2 ^ 970 \<le> \<bar>n\<bar> then Inl OverflowError else Inr (of_int n))"

text \<open>
  \<^verbatim>\<open>math.tan\<close> never raises. For a valid latitude the exact tangent has a pole only at
  latitude 90, where the argument is \<open>\<pi>/2\<close>; the code evaluates the tangent at the double
  nearest to \<open>\<pi>/2\<close> and gets \<^verbatim>\<open>1.633123935319537e+16\<close>, and the opposite number at
  \<open>-\<pi>/2\<close>. The model gives the tangent these values where its exact argument is at a
  pole.
\<close>

definition math_tan :: "real \<Rightarrow> real" where
  "math_tan a = (if cos a = 0 then sin a * 16331239353195370 else tan a)"

text \<open>\<^verbatim>\<open>math.log(t)\<close> raises ValueError (math domain error) for \<open>t \<le> 0\<close>.\<close>

definition math_log :: "real \<Rightarrow> py_error + real" where
  "math_log t = (if t \<le> 0 then Inl ValueError else Inr (ln t))"

text \<open>
  \<^verbatim>\<open>convert_coords_to_mercator_point(lat, lng, zoom)\<close>. The code is Python 2, so
  \<^verbatim>\<open>mapHeight / 2\<close> divides two ints and is integer division; the other divisions
  have a float operand, and \<^verbatim>\<open>mapWidth / 360.0\<close> is the first to convert
  \<^verbatim>\<open>2**zoom\<close> to a float.
\<close>

definition convert_coords_to_mercator_point ::
    "real \<Rightarrow> real \<Rightarrow> nat \<Rightarrow> py_error + real \<times> real" where
  "convert_coords_to_mercator_point lat lng zoom =
     (let mapWidth = (2::int) ^ zoom;
          mapHeight = (2::int) ^ zoom
      in case long_to_float mapWidth of
           Inl e \<Rightarrow> Inl e
         | Inr width \<Rightarrow>
             (let x = (lng + 180) * (width / 360);
                  latRad = lat * (pi / 180)
              in case math_log (math_tan (latRad / 2 + pi / 4)) of
                   Inl e \<Rightarrow> Inl e
                 | Inr mercN \<Rightarrow>
                     Inr (x, of_int (mapHeight div 2) - mercN * width / (2 * pi))))"

text \<open>
  \<^verbatim>\<open>np.floor(point).astype(int)\<close>: \<open>np.floor\<close> returns the float with the value of
  the floor; \<open>astype(int)\<close> converts a float to a 64-bit integer by dropping its fraction
  (towards zero), and gives \<open>-2^63\<close> for a float outside the range of 64-bit integers.
\<close>

definition np_floor :: "real \<Rightarrow> real" where
  "np_floor r = of_int \<lfloor>r\<rfloor>"

definition astype_int :: "real \<Rightarrow> int" where
  "astype_int r =
     (if - (2 ^ 63) \<le> r \<and> r < 2 ^ 63 then (if 0 \<le> r then \<lfloor>r\<rfloor> else \<lceil>r\<rceil>)
      else - (2 ^ 63))"

definition floor_point :: "real \<times> real \<Rightarrow> int \<times> int" where
  "floor_point point = (astype_int (np_floor (fst point)), astype_int (np_floor (snd point)))"

definition convert_coords_to_tile :: "real \<Rightarrow> real \<Rightarrow> nat \<Rightarrow> py_error + int \<times> int" where
  "convert_coords_to_tile lat lng zoom =
     (case convert_coords_to_mercator_point lat lng zoom of
        Inl e \<Rightarrow> Inl e
      | Inr point \<Rightarrow> Inr (floor_point point))"

text \<open>
  \<^verbatim>\<open>convert_point_to_coords(x, y, zoom)\<close>; returns \<open>(lat, lng)\<close>.
  \<^verbatim>\<open>x * 360.0 / mapWidth\<close> converts \<^verbatim>\<open>2**zoom\<close> to a float.
\<close>

definition convert_point_to_coords :: "real \<Rightarrow> real \<Rightarrow> nat \<Rightarrow> py_error + real \<times> real" where
  "convert_point_to_coords x y zoom =
     (let mapWidth = (2::int) ^ zoom;
          mapHeight = (2::int) ^ zoom
      in case long_to_float mapWidth of
           Inl e \<Rightarrow> Inl e
         | Inr width \<Rightarrow>
             (let lng = (x * 360 / width) - 180;
                  mercN = (of_int (mapHeight div 2) - y) * (2 * pi) / width;
                  latRad = (arctan (exp mercN) - (pi / 4)) * 2;
                  lat = (latRad * 180) / pi
              in Inr (lat, lng)))"

text \<open>The value of \<open>convert_point_to_coords\<close> where it returns (zoom below 1024).\<close>

definition point_coords :: "real \<Rightarrow> real \<Rightarrow> nat \<Rightarrow> real \<times> real" where
  "point_coords x y zoom =
     ((arctan (exp ((of_int (2 ^ zoom div 2) - y) * (2 * pi) / 2 ^ zoom)) - pi / 4) * 2 * 180 / pi,
      x * 360 / 2 ^ zoom - 180)"

subsection \<open>Removal of the points that DBSCAN labels as noise\<close>

text \<open>
  \<^verbatim>\<open>pts.remove(v)\<close>: removes the first element equal to \<open>v\<close>, raises ValueError when
  there is none.
\<close>

definition list_remove :: "'a \<Rightarrow> 'a list \<Rightarrow> py_error + 'a list" where
  "list_remove v xs = (if v \<in> set xs then Inr (remove1 v xs) else Inl ValueError)"

text \<open>
  Lines 191-195 and 347-351:
  \<^verbatim>\<open>
  for idx, val in reversed(list(enumerate(db.labels_))):
      if val == -1:
          pts.remove((pts[idx][0], pts[idx][1]))
  \<close>
  \<open>remove_noise\<close> is the loop over an explicit list of \<open>(idx, val)\<close> pairs, with the
  list \<open>pts\<close> passed through; \<open>pts[idx]\<close> raises IndexError out of range. Every point is
  a 2-tuple, so \<open>(pts[idx][0], pts[idx][1])\<close> is \<open>pts[idx]\<close>.
\<close>

fun remove_noise :: "(nat \<times> int) list \<Rightarrow> 'a list \<Rightarrow> py_error + 'a list" where
  "remove_noise [] pts = Inr pts"
| "remove_noise ((idx, val) # rest) pts =
     (if val = - 1 then
        (if idx < length pts then
           (case list_remove (pts ! idx) pts of
              Inl e \<Rightarrow> Inl e
            | Inr pts' \<Rightarrow> remove_noise rest pts')
         else Inl IndexError)
      else remove_noise rest pts)"

definition remove_noise_loop :: "int list \<Rightarrow> 'a list \<Rightarrow> py_error + 'a list" where
  "remove_noise_loop labels pts = remove_noise (rev (enumerate 0 labels)) pts"

text \<open>
  The pure filter of the specification's design note: keep, in order, the points whose
  label is not \<open>-1\<close>.
\<close>

definition filter_not_noise :: "int list \<Rightarrow> 'a list \<Rightarrow> 'a list" where
  "filter_not_noise labels pts = map snd (filter (\<lambda>(l, p). l \<noteq> - 1) (zip labels pts))"

subsection \<open>External collaborators and observable effects\<close>

text \<open>
  The database, scikit-learn's DBSCAN, the rasteriser \<^verbatim>\<open>Heatmap.heatmap\<close> (a wrapper
  around a C library) and PIL's \<^verbatim>\<open>crop\<close> are parameters of the model: deterministic
  functions, the first three able to raise. Images are an abstract type \<open>'img\<close>.
  \<^item> \<open>fetch_radius category lng lat radius\<close>: the rows \<open>(lat, lng)\<close> of the query of
    \<^verbatim>\<open>heatmap_venues\<close> within \<open>radius\<close> of the point;
  \<^item> \<open>fetch_envelope category min_lng min_lat max_lng max_lat\<close>: the rows of the query
    of \<^verbatim>\<open>heatmaps_venues\<close> in the envelope (at most 30000);
  \<^item> \<open>dbscan eps min_samples X\<close>: \<^verbatim>\<open>db.labels_\<close> of
    \<^verbatim>\<open>DBSCAN(eps, min_samples, algorithm='ball_tree', metric='haversine').fit(X)\<close>;
  \<^item> \<open>heatmap points opacity dotsize size\<close>: the image of
    \<^verbatim>\<open>hm.heatmap(points, opacity, dotsize, size, color_scheme='th_classic')\<close>;
  \<^item> \<open>crop img box\<close>: \<^verbatim>\<open>img.crop(box)\<close>.
\<close>

record 'img env =
  fetch_radius :: "int \<Rightarrow> real \<Rightarrow> real \<Rightarrow> int \<Rightarrow> py_error + (real \<times> real) list"
  fetch_envelope :: "int \<Rightarrow> real \<Rightarrow> real \<Rightarrow> real \<Rightarrow> real \<Rightarrow> py_error + (real \<times> real) list"
  dbscan :: "real \<Rightarrow> int \<Rightarrow> (real \<times> real) list \<Rightarrow> py_error + int list"
  heatmap :: "(real \<times> real) list \<Rightarrow> int \<Rightarrow> int \<Rightarrow> int \<times> int \<Rightarrow> py_error + 'img"
  crop :: "'img \<Rightarrow> int \<times> int \<times> int \<times> int \<Rightarrow> 'img"

text \<open>
  What a run does to the outside world is the sequence of its events, in order: the two
  kinds of query, each call of the rasteriser, and each tile saved under its file name,
  uploaded to S3 under that name and removed (one \<open>Upload\<close>; saving and uploading are
  taken not to fail). A modelled function returns its result, or the exception that left
  it, together with the events it produced until then.
\<close>

datatype 'img event =
    Query int real real int
  | Query_envelope int real real real real
  | Render "(real \<times> real) list" int int "int \<times> int"
  | Upload string 'img

type_synonym 'img outcome = "(py_error + unit) \<times> 'img event list"

definition uploads :: "'img event list \<Rightarrow> (string \<times> 'img) list" where
  "uploads t = concat (map (\<lambda>e. case e of Upload n img \<Rightarrow> [(n, img)] | _ \<Rightarrow> []) t)"

subsection \<open>File names\<close>

text \<open>\<^verbatim>\<open>"{0}_{1}_{2}_{3}.png".format(category, zoom, x, y)\<close>, integers in decimal.\<close>

fun str_nat :: "nat \<Rightarrow> string" where
  "str_nat n =
     (if n < 10 then [''0123456789'' ! n]
      else str_nat (n div 10) @ [''0123456789'' ! (n mod 10)])"

declare str_nat.simps [simp del]

definition str_int :: "int \<Rightarrow> string" where
  "str_int i = (if i < 0 then CHR ''-'' # str_nat (nat (- i)) else str_nat (nat i))"

definition file_name :: "int \<Rightarrow> nat \<Rightarrow> int \<Rightarrow> int \<Rightarrow> string" where
  "file_name category zoom x y =
     str_int category @ ''_'' @ str_nat zoom @ ''_'' @ str_int x @ ''_'' @ str_int y @ ''.png''"

subsection \<open>Density filtering (lines 186-195 and 343-351)\<close>

definition kms_per_radian :: real where
  "kms_per_radian = 6371.0088"

definition np_radians :: "(real \<times> real) list \<Rightarrow> (real \<times> real) list" where
  "np_radians pts = map (\<lambda>(a, b). (a * pi / 180, b * pi / 180)) pts"

definition cluster_points :: "'img env \<Rightarrow> nat \<Rightarrow> (real \<times> real) list \<Rightarrow> py_error + (real \<times> real) list" where
  "cluster_points env zoom pts =
     (case zoom_parameters zoom of
        Inl e \<Rightarrow> Inl e
      | Inr p \<Rightarrow>
          if cluster p then
            (let epsilon = cluster_epsilon p / kms_per_radian
             in case dbscan env epsilon (cluster_neighbors p) (np_radians pts) of
                  Inl e \<Rightarrow> Inl e
                | Inr labels \<Rightarrow> remove_noise_loop labels pts)
          else Inr pts)"

subsection \<open>The working tile set of city mode (lines 202-262)\<close>

text \<open>\<^verbatim>\<open>if tile not in tiles: tiles.append(tile)\<close>\<close>

definition append_new :: "'a \<Rightarrow> 'a list \<Rightarrow> 'a list" where
  "append_new t tiles = (if t \<in> set tiles then tiles else tiles @ [t])"

text \<open>Float division; a zero divisor raises ZeroDivisionError.\<close>

definition py_div :: "real \<Rightarrow> real \<Rightarrow> py_error + real" where
  "py_div a b = (if b = 0 then Inl ZeroDivisionError else Inr (a / b))"

text \<open>
  The normalisation of a point \<open>(lng, lat)\<close> into pixel coordinates \<open>(x, y)\<close> of a raster
  of \<open>res_x\<close> by \<open>res_y\<close> pixels between the corners \<open>min_coords\<close> and
  \<open>max_coords\<close> (each \<open>(lat, lng)\<close>): lines 216-217, 283-285 and 356-358.
\<close>

definition normalize_pt ::
    "real \<times> real \<Rightarrow> real \<times> real \<Rightarrow> int \<Rightarrow> int \<Rightarrow> real \<times> real \<Rightarrow> py_error + real \<times> real" where
  "normalize_pt min_coords max_coords res_x res_y pt =
     (case py_div (fst max_coords - snd pt) (fst max_coords - fst min_coords) of
        Inl e \<Rightarrow> Inl e
      | Inr qy \<Rightarrow>
          (case py_div (fst pt - snd min_coords) (snd max_coords - snd min_coords) of
             Inl e \<Rightarrow> Inl e
           | Inr qx \<Rightarrow> Inr (qx * of_int (res_x - 1), qy * of_int (res_y - 1))))"

fun normalize_pts ::
    "real \<times> real \<Rightarrow> real \<times> real \<Rightarrow> int \<Rightarrow> int \<Rightarrow> (real \<times> real) list
      \<Rightarrow> py_error + (real \<times> real) list" where
  "normalize_pts min_coords max_coords res_x res_y [] = Inr []"
| "normalize_pts min_coords max_coords res_x res_y (pt # pts) =
     (case normalize_pt min_coords max_coords res_x res_y pt of
        Inl e \<Rightarrow> Inl e
      | Inr p \<Rightarrow>
          (case normalize_pts min_coords max_coords res_x res_y pts of
             Inl e \<Rightarrow> Inl e
           | Inr ps \<Rightarrow> Inr (p # ps)))"

text \<open>
  Lines 219-259: the neighbours of tile \<open>(x, y)\<close> that a point at pixel
  \<open>(pixel_x, pixel_y)\<close> of that tile adds, for dot radius \<open>d\<close>
  (\<^verbatim>\<open>ZOOM_PARAMETERS[zoom]['dotsize']\<close>).
\<close>

definition add_neighbors ::
    "int \<Rightarrow> int \<Rightarrow> real \<Rightarrow> real \<Rightarrow> int \<Rightarrow> (int \<times> int) list \<Rightarrow> (int \<times> int) list" where
  "add_neighbors x y pixel_x pixel_y d tiles =
     (let tiles =
            (if pixel_x < of_int d then
               (let tiles = append_new (x - 1, y) tiles;
                    tiles = (if pixel_y < of_int d
                             then append_new (x - 1, y - 1) tiles else tiles);
                    tiles = (if of_int TILE_RESOLUTION - pixel_y < of_int d
                             then append_new (x - 1, y + 1) tiles else tiles)
                in tiles)
             else tiles);
          tiles = (if pixel_y < of_int d then append_new (x, y - 1) tiles else tiles);
          tiles =
            (if of_int TILE_RESOLUTION - pixel_x < of_int d then
               (let tiles = append_new (x + 1, y) tiles;
                    tiles = (if pixel_y < of_int d
                             then append_new (x + 1, y - 1) tiles else tiles);
                    tiles = (if of_int TILE_RESOLUTION - pixel_y < of_int d
                             then append_new (x + 1, y + 1) tiles else tiles)
                in tiles)
             else tiles);
          tiles = (if of_int TILE_RESOLUTION - pixel_y < of_int d
                   then append_new (x, y + 1) tiles else tiles)
      in tiles)"

text \<open>The body of the loop over the venues (lines 204-259); a venue is \<open>(lng, lat)\<close>.\<close>

definition venue_tiles ::
    "nat \<Rightarrow> real \<times> real \<Rightarrow> (int \<times> int) list \<Rightarrow> py_error + (int \<times> int) list" where
  "venue_tiles zoom venue tiles =
     (case convert_coords_to_tile (snd venue) (fst venue) zoom of
        Inl e \<Rightarrow> Inl e
      | Inr tile \<Rightarrow>
          (let tiles = append_new tile tiles;
               x = fst tile;
               y = snd tile
           in case convert_point_to_coords (of_int x) (of_int (y + 1)) zoom of
                Inl e \<Rightarrow> Inl e
              | Inr min_coords \<Rightarrow>
                  (case convert_point_to_coords (of_int (x + 1)) (of_int y) zoom of
                     Inl e \<Rightarrow> Inl e
                   | Inr max_coords \<Rightarrow>
                       (case normalize_pt min_coords max_coords
                               TILE_RESOLUTION TILE_RESOLUTION venue of
                          Inl e \<Rightarrow> Inl e
                        | Inr pixel \<Rightarrow>
                            (case zoom_parameters zoom of
                               Inl e \<Rightarrow> Inl e
                             | Inr p \<Rightarrow>
                                 Inr (add_neighbors x y (fst pixel) (snd pixel)
                                        (dotsize p) tiles))))))"

fun build_tiles ::
    "nat \<Rightarrow> (real \<times> real) list \<Rightarrow> (int \<times> int) list \<Rightarrow> py_error + (int \<times> int) list" where
  "build_tiles zoom [] tiles = Inr tiles"
| "build_tiles zoom (venue # pts) tiles =
     (case venue_tiles zoom venue tiles of
        Inl e \<Rightarrow> Inl e
      | Inr tiles' \<Rightarrow> build_tiles zoom pts tiles')"

subsection \<open>The canvas and its slicing (lines 264-310)\<close>

text \<open>
  Lines 265-266: the north-west and south-east tiles of the bounding box; \<^verbatim>\<open>min\<close> and
  \<^verbatim>\<open>max\<close> of an empty list raise ValueError.
\<close>

definition bounding_tiles :: "(int \<times> int) list \<Rightarrow> py_error + (int \<times> int) \<times> (int \<times> int)" where
  "bounding_tiles tiles =
     (case tiles of
        [] \<Rightarrow> Inl ValueError
      | t # ts \<Rightarrow>
          Inr ((fold min (map fst ts) (fst t), fold min (map snd ts) (snd t)),
               (fold max (map fst ts) (fst t), fold max (map snd ts) (snd t))))"

text \<open>\<^verbatim>\<open>range(0, n)\<close>\<close>

definition py_range0 :: "int \<Rightarrow> int list" where
  "py_range0 n = [0 .. n - 1]"

text \<open>The body of the two loops of lines 295-310, at \<open>(i, j)\<close>.\<close>

definition slice_cell ::
    "'img env \<Rightarrow> int \<Rightarrow> nat \<Rightarrow> (int \<times> int) list \<Rightarrow> int \<times> int \<Rightarrow> 'img \<Rightarrow> int \<Rightarrow> int
      \<Rightarrow> 'img event list" where
  "slice_cell env category zoom tiles nw_tile img i j =
     (let x = fst nw_tile + i;
          y = snd nw_tile + j
      in if (x, y) \<in> set tiles then
           [Upload (file_name category zoom x y)
              (crop env img (TILE_RESOLUTION * i, TILE_RESOLUTION * j,
                             TILE_RESOLUTION * (i + 1), TILE_RESOLUTION * (j + 1)))]
         else [])"

definition slice_canvas ::
    "'img env \<Rightarrow> int \<Rightarrow> nat \<Rightarrow> (int \<times> int) list \<Rightarrow> int \<times> int \<Rightarrow> int \<Rightarrow> int \<Rightarrow> 'img
      \<Rightarrow> 'img event list" where
  "slice_canvas env category zoom tiles nw_tile num_x_tiles num_y_tiles img =
     concat (map (\<lambda>i.
       concat (map (\<lambda>j. slice_cell env category zoom tiles nw_tile img i j)
                 (py_range0 num_y_tiles)))
       (py_range0 num_x_tiles))"

text \<open>Lines 201-310: the branch of \<open>generate_heatmap_by_city\<close> that has points.\<close>

definition render_city :: "'img env \<Rightarrow> int \<Rightarrow> nat \<Rightarrow> (real \<times> real) list \<Rightarrow> 'img outcome" where
  "render_city env category zoom pts =
     (case build_tiles zoom pts [] of
        Inl e \<Rightarrow> (Inl e, [])
      | Inr tiles0 \<Rightarrow>
          (let tiles = sort tiles0
           in case bounding_tiles tiles of
                Inl e \<Rightarrow> (Inl e, [])
              | Inr (nw_tile, se_tile) \<Rightarrow>
                  (case convert_point_to_coords
                          (of_int (fst nw_tile)) (of_int (snd se_tile + 1)) zoom of
                     Inl e \<Rightarrow> (Inl e, [])
                   | Inr min_coords \<Rightarrow>
                       (case convert_point_to_coords
                               (of_int (fst se_tile + 1)) (of_int (snd nw_tile)) zoom of
                          Inl e \<Rightarrow> (Inl e, [])
                        | Inr max_coords \<Rightarrow>
                            (let num_x_tiles = fst se_tile - fst nw_tile + 1;
                                 num_y_tiles = snd se_tile - snd nw_tile + 1;
                                 resolution_x = TILE_RESOLUTION * num_x_tiles;
                                 resolution_y = TILE_RESOLUTION * num_y_tiles
                             in case normalize_pts min_coords max_coords
                                       resolution_x resolution_y pts of
                                  Inl e \<Rightarrow> (Inl e, [])
                                | Inr normalized_pts \<Rightarrow>
                                    (case zoom_parameters zoom of
                                       Inl e \<Rightarrow> (Inl e, [])
                                     | Inr p \<Rightarrow>
                                         (let size = (resolution_x, resolution_y);
                                              call = Render normalized_pts (opacity p)
                                                       (dotsize p) size
                                          in case heatmap env normalized_pts (opacity p)
                                                    (dotsize p) size of
                                               Inl e \<Rightarrow> (Inl e, [call])
                                             | Inr img \<Rightarrow>
                                                 (Inr (), call # slice_canvas env category
                                                    zoom tiles nw_tile num_x_tiles
                                                    num_y_tiles img))))))))"

subsection \<open>One (category, zoom) unit in city mode\<close>

definition generate_heatmap_by_city ::
    "'img env \<Rightarrow> int \<Rightarrow> nat \<Rightarrow> real \<Rightarrow> real \<Rightarrow> int \<Rightarrow> 'img outcome" where
  "generate_heatmap_by_city env category zoom lat lng radius =
     (let query = Query category lng lat radius
      in case fetch_radius env category lng lat radius of
           Inl e \<Rightarrow> (Inl e, [query])
         | Inr rows \<Rightarrow>
             (let pts = map (\<lambda>row. (snd row, fst row)) rows;
                  total_venues = length pts
              in if total_venues > 0 then
                   (case cluster_points env zoom pts of
                      Inl e \<Rightarrow> (Inl e, [query])
                    | Inr pts \<Rightarrow>
                        if length pts > 0 then
                          (case render_city env category zoom pts of
                             (r, t) \<Rightarrow> (r, query # t))
                        else (Inr (), [query]))
                 else (Inr (), [query])))"

subsection \<open>Tile mode\<close>

text \<open>\<open>generate_tile\<close>, lines 318-377.\<close>

definition generate_tile :: "'img env \<Rightarrow> int \<Rightarrow> nat \<Rightarrow> int \<Rightarrow> int \<Rightarrow> 'img outcome" where
  "generate_tile env category zoom x y =
     (case convert_point_to_coords (of_int x) (of_int (y + 1)) zoom of
        Inl e \<Rightarrow> (Inl e, [])
      | Inr min_coords \<Rightarrow>
     (case convert_point_to_coords (of_int (x + 1)) (of_int y) zoom of
        Inl e \<Rightarrow> (Inl e, [])
      | Inr max_coords \<Rightarrow>
     (let query = Query_envelope category (snd min_coords) (fst min_coords)
                    (snd max_coords) (fst max_coords)
      in case fetch_envelope env category (snd min_coords) (fst min_coords)
                (snd max_coords) (fst max_coords) of
           Inl e \<Rightarrow> (Inl e, [query])
         | Inr rows \<Rightarrow>
             (let pts = map (\<lambda>row. (snd row, fst row)) rows
              in if length pts > 0 then
                   (case cluster_points env zoom pts of
                      Inl e \<Rightarrow> (Inl e, [query])
                    | Inr pts \<Rightarrow>
                        (case normalize_pts min_coords max_coords
                                TILE_RESOLUTION TILE_RESOLUTION pts of
                           Inl e \<Rightarrow> (Inl e, [query])
                         | Inr tile_pts \<Rightarrow>
                             if length tile_pts > 0 then
                               (case zoom_parameters zoom of
                                  Inl e \<Rightarrow> (Inl e, [query])
                                | Inr p \<Rightarrow>
                                    (let size = (TILE_RESOLUTION, TILE_RESOLUTION);
                                         call = Render tile_pts (opacity p) (dotsize p) size
                                     in case heatmap env tile_pts (opacity p) (dotsize p) size of
                                          Inl e \<Rightarrow> (Inl e, [query, call])
                                        | Inr img \<Rightarrow>
                                            (Inr (), [query, call,
                                               Upload (file_name category zoom x y) img])))
                             else (Inr (), [query])))
                 else (Inr (), [query])))))"

text \<open>
  A \<^verbatim>\<open>for\<close> loop whose body can raise: the exception leaves the loop, the events of
  the iterations made so far stay.
\<close>

fun for_each :: "('a \<Rightarrow> (py_error + unit) \<times> 'e list) \<Rightarrow> 'a list \<Rightarrow> (py_error + unit) \<times> 'e list" where
  "for_each body [] = (Inr (), [])"
| "for_each body (a # as) =
     (case body a of
        (Inl e, t) \<Rightarrow> (Inl e, t)
      | (Inr u, t) \<Rightarrow> (case for_each body as of (r, t') \<Rightarrow> (r, t @ t')))"

text \<open>Lines 152-157: the tiles that hold a venue; a venue is \<open>(lat, lng)\<close> here.\<close>

fun venue_tiles_only ::
    "nat \<Rightarrow> (real \<times> real) list \<Rightarrow> (int \<times> int) list \<Rightarrow> py_error + (int \<times> int) list" where
  "venue_tiles_only zoom [] tiles = Inr tiles"
| "venue_tiles_only zoom (venue # pts) tiles =
     (case convert_coords_to_tile (fst venue) (snd venue) zoom of
        Inl e \<Rightarrow> Inl e
      | Inr tile \<Rightarrow> venue_tiles_only zoom pts (append_new tile tiles))"

definition generate_heatmap_by_tile ::
    "'img env \<Rightarrow> int \<Rightarrow> nat \<Rightarrow> real \<Rightarrow> real \<Rightarrow> 'img outcome" where
  "generate_heatmap_by_tile env category zoom lat lng =
     (let query = Query category lng lat RADIUS
      in case fetch_radius env category lng lat RADIUS of
           Inl e \<Rightarrow> (Inl e, [query])
         | Inr rows \<Rightarrow>
             (case venue_tiles_only zoom rows [] of
                Inl e \<Rightarrow> (Inl e, [query])
              | Inr tiles \<Rightarrow>
                  (case for_each (\<lambda>tile. generate_tile env category zoom (fst tile) (snd tile))
                          (sort tiles) of
                     (r, t) \<Rightarrow> (r, query # t))))"

subsection \<open>The (category, zoom) matrix\<close>

text \<open>
  \<^verbatim>\<open>range(1, 5)\<close> and \<^verbatim>\<open>range(MIN_ZOOM, MAX_ZOOM + 1, ZOOM_STEP)\<close>; the step is
  positive.
\<close>

definition categories :: "int list" where
  "categories = [1 .. 4]"

definition zoom_levels :: "nat list" where
  "zoom_levels =
     map (\<lambda>k. MIN_ZOOM + k * ZOOM_STEP)
       [0 ..< (MAX_ZOOM + 1 - MIN_ZOOM + (ZOOM_STEP - 1)) div ZOOM_STEP]"

definition generate_all_heatmaps_by_tile :: "'img env \<Rightarrow> real \<Rightarrow> real \<Rightarrow> int \<Rightarrow> 'img outcome" where
  "generate_all_heatmaps_by_tile env lat lng run_method =
     (if run_method = RUN_BY_CATEGORY then
        for_each (\<lambda>cat.
          for_each (\<lambda>z. generate_heatmap_by_tile env cat z lat lng) zoom_levels) categories
      else if run_method = RUN_BY_ZOOM then
        for_each (\<lambda>z.
          for_each (\<lambda>cat. generate_heatmap_by_tile env cat z lat lng) categories) zoom_levels
      else (Inl ValueError, []))"

text \<open>
  Lines 117-122 and 126-131: the body of the loops of city mode.
  \<^verbatim>\<open>
  new_radius = RADIUS
  try:
      generate_heatmap_by_city(cat, z, lat, lng, new_radius)
  except:
      generate_heatmap_by_city(cat, z, lat, lng, new_radius - 2500)
  \<close>
\<close>

definition city_unit :: "'img env \<Rightarrow> real \<Rightarrow> real \<Rightarrow> int \<Rightarrow> nat \<Rightarrow> 'img outcome" where
  "city_unit env lat lng cat z =
     (let new_radius = RADIUS
      in case generate_heatmap_by_city env cat z lat lng new_radius of
           (Inr u, t) \<Rightarrow> (Inr u, t)
         | (Inl e, t) \<Rightarrow>
             (case generate_heatmap_by_city env cat z lat lng (new_radius - 2500) of
                (r, t') \<Rightarrow> (r, t @ t')))"

definition generate_all_heatmaps_by_city :: "'img env \<Rightarrow> real \<Rightarrow> real \<Rightarrow> int \<Rightarrow> 'img outcome" where
  "generate_all_heatmaps_by_city env lat lng run_method =
     (if run_method = RUN_BY_CATEGORY then
        for_each (\<lambda>cat. for_each (\<lambda>z. city_unit env lat lng cat z) zoom_levels) categories
      else if run_method = RUN_BY_ZOOM then
        for_each (\<lambda>z. for_each (\<lambda>cat. city_unit env lat lng cat z) categories) zoom_levels
      else (Inl ValueError, []))"

text \<open>The order in which the two run methods go through the (category, zoom) matrix.\<close>

definition category_major :: "(int \<times> nat) list" where
  "category_major = concat (map (\<lambda>cat. map (\<lambda>z. (cat, z)) zoom_levels) categories)"

definition zoom_major :: "(int \<times> nat) list" where
  "zoom_major = concat (map (\<lambda>z. map (\<lambda>cat. (cat, z)) categories) zoom_levels)"

definition unit_order :: "int \<Rightarrow> (int \<times> nat) list" where
  "unit_order run_method = (if run_method = RUN_BY_CATEGORY then category_major else zoom_major)"

subsection \<open>Environments for concrete runs\<close>

text \<open>
  An environment whose database returns \<open>rows category\<close> for every query and whose
  clustering returns \<open>labels X\<close>; an image is represented by its size, so the rasteriser
  returns the size of the canvas and \<open>crop\<close> the size of the box.
\<close>

definition test_env ::
    "(int \<Rightarrow> (real \<times> real) list) \<Rightarrow> ((real \<times> real) list \<Rightarrow> int list) \<Rightarrow> (int \<times> int) env" where
  "test_env rows labels =
     \<lparr>fetch_radius = (\<lambda>category lng lat radius. Inr (rows category)),
      fetch_envelope = (\<lambda>category min_lng min_lat max_lng max_lat. Inr (rows category)),
      dbscan = (\<lambda>eps min_samples X. Inr (labels X)),
      heatmap = (\<lambda>points op d size. Inr size),
      crop = (\<lambda>img box. case box of (l, u, r, b) \<Rightarrow> (r - l, b - u))\<rparr>"

text \<open>Four venues at the south pole in every category, all in one cluster.\<close>

definition polar_env :: "(int \<times> int) env" where
  "polar_env =
     test_env (\<lambda>c. [(- 90, 0), (- 90, 0), (- 90, 0), (- 90, 0)]) (\<lambda>X. map (\<lambda>x. 0) X)"

text \<open>
  Four venues at latitude 0, longitude 0 in every category but 2, four venues at the south
  pole in category 2; each group is one cluster.
\<close>

definition mixed_env :: "(int \<times> int) env" where
  "mixed_env =
     test_env (\<lambda>c. if c = 2 then [(- 90, 0), (- 90, 0), (- 90, 0), (- 90, 0)]
                    else [(0, 0), (0, 0), (0, 0), (0, 0)])
       (\<lambda>X. map (\<lambda>x. 0) X)"

text \<open>Four venues at latitude 0, longitude 0 in every category, all in one cluster.\<close>

definition origin_env :: "(int \<times> int) env" where
  "origin_env = test_env (\<lambda>c. [(0, 0), (0, 0), (0, 0), (0, 0)]) (\<lambda>X. map (\<lambda>x. 0) X)"

text \<open>An empty database.\<close>

definition empty_env :: "(int \<times> int) env" where
  "empty_env = test_env (\<lambda>c. []) (\<lambda>X. [])"


section \<open>Properties\<close>

subsection \<open>Projection\<close>

lemma abs2: "\<bar>(2::int) ^ n\<bar> = 2 ^ n"
  by simp

lemma long_to_float_pow:
  "long_to_float (2 ^ zoom) = (if 1024 \<le> zoom then Inl OverflowError else Inr (2 ^ zoom))"
proof (cases "1024 \<le> zoom")
  case True
  have a: "(2::int) ^ 1024 \<le> 2 ^ zoom"
    by (rule power_increasing) (use True in simp_all)
  have b: "(2::int) ^ 1024 - 2 ^ 970 \<le> 2 ^ 1024" by simp
  have "(2::int) ^ 1024 - 2 ^ 970 \<le> \<bar>2 ^ zoom\<bar>"
    using order_trans [OF b a] by (simp only: abs2)
  then show ?thesis
    using True by (simp only: long_to_float_def if_True)
next
  case False
  then have "zoom \<le> 1023" by simp
  then have a: "(2::int) ^ zoom \<le> 2 ^ 1023"
    by (intro power_increasing) simp_all
  have b: "(2::int) ^ 1023 < 2 ^ 1024 - 2 ^ 970" by simp
  have "\<not> (2::int) ^ 1024 - 2 ^ 970 \<le> \<bar>2 ^ zoom\<bar>"
    using order_le_less_trans [OF a b] by (simp only: abs2 not_le)
  then show ?thesis
    using False by (simp only: long_to_float_def if_False of_int_power of_int_numeral)
qed

lemma convert_point_to_coords_eq:
  "zoom < 1024 \<Longrightarrow> convert_point_to_coords x y zoom = Inr (point_coords x y zoom)"
  by (simp add: convert_point_to_coords_def point_coords_def long_to_float_pow Let_def)

lemma convert_point_to_coords_overflow:
  "1024 \<le> zoom \<Longrightarrow> convert_point_to_coords x y zoom = Inl OverflowError"
  by (simp add: convert_point_to_coords_def long_to_float_pow Let_def)

lemma mercator_overflow:
  "1024 \<le> zoom \<Longrightarrow> convert_coords_to_mercator_point lat lng zoom = Inl OverflowError"
  by (simp add: convert_coords_to_mercator_point_def long_to_float_pow Let_def)

text \<open>
  In exact arithmetic, below zoom 1024 and strictly between the poles the two conversions
  are inverse to each other; at latitude -90 the argument of the tangent is 0, the tangent
  is 0 and \<^verbatim>\<open>math.log(0.0)\<close> raises ValueError; at latitude 90 the conversion returns.
\<close>

lemma math_tan_eq: "0 < a \<Longrightarrow> a < pi / 2 \<Longrightarrow> math_tan a = tan a"
  using cos_gt_zero_pi [of a] by (simp add: math_tan_def)

lemma mercator_round_trip:
  assumes "- 90 < lat" "lat < 90" "zoom < 1024"
  shows "\<exists>x y. convert_coords_to_mercator_point lat lng zoom = Inr (x, y)
           \<and> convert_point_to_coords x y zoom = Inr (lat, lng)"
proof -
  define th where "th = lat * (pi / 180) / 2 + pi / 4"
  have "0 < pi * (lat + 90)" "0 < pi * (90 - lat)"
    using assms by simp_all
  then have th0: "0 < th" and th1: "th < pi / 2"
    by (simp_all add: th_def field_simps)
  have tpos: "0 < tan th" using th0 th1 by (rule tan_gt_zero)
  have mt: "math_tan th = tan th" using th0 th1 by (rule math_tan_eq)
  have wpos: "(0::real) < 2 ^ zoom" by simp
  have inv: "arctan (exp (ln (tan th))) = th"
    using tpos th0 th1 by (simp add: arctan_tan)
  have fwd: "convert_coords_to_mercator_point lat lng zoom =
      Inr ((lng + 180) * (2 ^ zoom / 360),
           of_int (2 ^ zoom div 2) - ln (tan th) * 2 ^ zoom / (2 * pi))"
    using tpos assms(3)
    by (simp only: convert_coords_to_mercator_point_def Let_def th_def [symmetric]
        long_to_float_pow mt)
      (simp add: math_log_def)
  have bwd: "convert_point_to_coords ((lng + 180) * (2 ^ zoom / 360))
      (of_int (2 ^ zoom div 2) - ln (tan th) * 2 ^ zoom / (2 * pi)) zoom = Inr (lat, lng)"
    using inv wpos assms(3)
    apply (simp add: convert_point_to_coords_eq point_coords_def)
    apply (simp add: th_def field_simps)
    done
  show ?thesis using fwd bwd by blast
qed

lemma mercator_south_pole: "zoom < 1024 \<Longrightarrow> convert_coords_to_mercator_point (- 90) lng zoom = Inl ValueError"
  by (simp add: convert_coords_to_mercator_point_def long_to_float_pow math_log_def math_tan_def Let_def)

lemma mercator_north_pole:
  "zoom < 1024 \<Longrightarrow> convert_coords_to_mercator_point 90 lng zoom =
     Inr ((lng + 180) * (2 ^ zoom / 360),
          of_int (2 ^ zoom div 2) - ln 16331239353195370 * 2 ^ zoom / (2 * pi))"
  by (simp add: convert_coords_to_mercator_point_def long_to_float_pow math_log_def math_tan_def Let_def)

lemma astype_int_np_floor:
  "- (2 ^ 63) \<le> r \<Longrightarrow> r < 2 ^ 63 \<Longrightarrow> astype_int (np_floor r) = \<lfloor>r\<rfloor>"
proof -
  assume a: "- (2 ^ 63) \<le> r" and b: "r < 2 ^ 63"
  have "(- (2 ^ 63) :: int) \<le> \<lfloor>r\<rfloor>"
    using a by (simp add: le_floor_iff)
  moreover have "\<lfloor>r\<rfloor> < (2 ^ 63 :: int)"
    using b by (simp add: floor_less_iff)
  ultimately have "- (2 ^ 63) \<le> (of_int \<lfloor>r\<rfloor> :: real) \<and> (of_int \<lfloor>r\<rfloor> :: real) < 2 ^ 63"
    by (metis of_int_le_iff of_int_less_iff of_int_minus of_int_numeral of_int_power)
  then show ?thesis
    by (simp add: astype_int_def np_floor_def)
qed

lemma floor_point_eq:
  "- (2 ^ 63) \<le> x \<Longrightarrow> x < 2 ^ 63 \<Longrightarrow> - (2 ^ 63) \<le> y \<Longrightarrow> y < 2 ^ 63 \<Longrightarrow>
     floor_point (x, y) = (\<lfloor>x\<rfloor>, \<lfloor>y\<rfloor>)"
  by (simp add: floor_point_def astype_int_np_floor)





lemma lat_eq_iff:
  "fst (point_coords x y z) = fst (point_coords x' y' z) \<longleftrightarrow> y = y'"
proof -
  have "arctan (exp a) = arctan (exp b) \<longleftrightarrow> a = b" for a b :: real
    by (simp add: arctan_eq_iff)
  then show ?thesis
    by (auto simp add: point_coords_def field_simps)
qed

lemma lng_eq: "snd (point_coords x y z) = x * 360 / 2 ^ z - 180"
  by (simp add: point_coords_def)

lemma lat_equator: "y = of_int (2 ^ z div 2) \<Longrightarrow> fst (point_coords x y z) = 0"
  by (simp add: point_coords_def arctan_one)

text \<open>
  Between the corners of a box of tiles that is not empty the normalisation does not divide
  by zero.
\<close>

lemma normalize_pt_ok:
  assumes "x0 \<noteq> x1" "y0 \<noteq> y1"
  shows "normalize_pt (point_coords x0 y1 z) (point_coords x1 y0 z) rx ry pt =
     Inr ((fst pt - snd (point_coords x0 y1 z))
            / (snd (point_coords x1 y0 z) - snd (point_coords x0 y1 z))
            * of_int (rx - 1),
          (fst (point_coords x1 y0 z) - snd pt)
            / (fst (point_coords x1 y0 z) - fst (point_coords x0 y1 z))
            * of_int (ry - 1))"
proof -
  have "fst (point_coords x1 y0 z) - fst (point_coords x0 y1 z) \<noteq> 0"
    using assms(2) by (simp add: lat_eq_iff)
  moreover have "snd (point_coords x1 y0 z) - snd (point_coords x0 y1 z) \<noteq> 0"
    using assms(1) by (simp add: lng_eq field_simps)
  ultimately show ?thesis
    by (simp add: normalize_pt_def py_div_def)
qed

subsection \<open>Noise removal\<close>

text \<open>
  C10. The claim is that the reverse-enumeration loop equals the pure filter whenever there
  is one label per index and equal points have equal labels. The code removes by value, so
  with a noise point stored twice it deletes the first copy, the indices below shift, and
  the next \<open>pts[idx]\<close> reads a different point: on \<open>[A, B, B, B, B, A]\<close> with labels
  \<open>[-1, 0, 0, 0, 0, -1]\<close> the loop returns \<open>[B, B, B, A]\<close>, the filter
  \<open>[B, B, B, B]\<close>.
\<close>

theorem remove_noise_loop_duplicates:
  "remove_noise_loop [- 1, 0, 0, 0, 0, - 1]
     [(0::real, 0::real), (1, 1), (1, 1), (1, 1), (1, 1), (0, 0)] =
       Inr [(1, 1), (1, 1), (1, 1), (0, 0)]
   \<and> filter_not_noise [- 1, 0, 0, 0, 0, - 1]
     [(0::real, 0::real), (1, 1), (1, 1), (1, 1), (1, 1), (0, 0)] =
       [(1, 1), (1, 1), (1, 1), (1, 1)]"
  by (simp add: remove_noise_loop_def filter_not_noise_def list_remove_def enumerate_eq_zip)

subsection \<open>The working tile set\<close>

lemma set_append_new: "set (append_new t tiles) = insert t (set tiles)"
  by (auto simp: append_new_def)



lemma set_add_neighbors:
  "set (add_neighbors x y pixel_x pixel_y d tiles) =
     set tiles
     \<union> {t. t = (x - 1, y) \<and> pixel_x < of_int d}
     \<union> {t. t = (x + 1, y) \<and> of_int TILE_RESOLUTION - pixel_x < of_int d}
     \<union> {t. t = (x, y - 1) \<and> pixel_y < of_int d}
     \<union> {t. t = (x, y + 1) \<and> of_int TILE_RESOLUTION - pixel_y < of_int d}
     \<union> {t. t = (x - 1, y - 1) \<and> pixel_x < of_int d \<and> pixel_y < of_int d}
     \<union> {t. t = (x - 1, y + 1) \<and> pixel_x < of_int d
            \<and> of_int TILE_RESOLUTION - pixel_y < of_int d}
     \<union> {t. t = (x + 1, y - 1) \<and> of_int TILE_RESOLUTION - pixel_x < of_int d
            \<and> pixel_y < of_int d}
     \<union> {t. t = (x + 1, y + 1) \<and> of_int TILE_RESOLUTION - pixel_x < of_int d
            \<and> of_int TILE_RESOLUTION - pixel_y < of_int d}"
  unfolding add_neighbors_def Let_def
  by (auto simp: set_append_new)



lemma zoom_parameters_10: "zoom_parameters 10 = Inr (profile 10 1 True 0.5 4)"
  by (simp add: zoom_parameters_def ZOOM_PARAMETERS_def)




subsection \<open>Slicing the canvas\<close>

lemma fold_min_Min: "fold min xs (a::int) = Min (set (a # xs))"
  by (simp only: Min.set_eq_fold)

lemma fold_max_Max: "fold max xs (a::int) = Max (set (a # xs))"
  by (simp only: Max.set_eq_fold)

lemma bounding_tiles_bounds:
  assumes "bounding_tiles tiles = Inr (nw_tile, se_tile)" "(x, y) \<in> set tiles"
  shows "fst nw_tile \<le> x \<and> x \<le> fst se_tile \<and> snd nw_tile \<le> y \<and> y \<le> snd se_tile"
proof -
  obtain t ts where ts: "tiles = t # ts"
    using assms(1) by (cases tiles) (auto simp: bounding_tiles_def)
  have nw: "nw_tile = (Min (set (map fst tiles)), Min (set (map snd tiles)))"
    and se: "se_tile = (Max (set (map fst tiles)), Max (set (map snd tiles)))"
    using assms(1) unfolding ts bounding_tiles_def
    by (auto simp: fold_min_Min fold_max_Max)
  have "x \<in> set (map fst tiles)" "y \<in> set (map snd tiles)"
    using assms(2) by force+
  then show ?thesis
    unfolding nw se by (simp add: Min_le)
qed




lemma tile_origin_10: "convert_coords_to_tile 0 0 10 = Inr (512, 512)"
  by (simp add: convert_coords_to_tile_def convert_coords_to_mercator_point_def long_to_float_def
      math_log_def math_tan_def cos_45 tan_45 floor_point_eq)

lemma venue_tiles_origin_10:
  "venue_tiles 10 (0, 0) tiles =
     Inr (append_new (512, 511) (append_new (511, 511) (append_new (511, 512)
       (append_new (512, 512) tiles))))"
  by (simp add: venue_tiles_def tile_origin_10 Let_def convert_point_to_coords_eq
      normalize_pt_ok lng_eq lat_equator
      zoom_parameters_10 profile_def add_neighbors_def TILE_RESOLUTION_def)




text \<open>
  The tile set \<open>{(0, 0), (0, 1), (1, 0)}\<close>: three images, none for tile \<open>(1, 1)\<close> of
  the bounding box.
\<close>

lemma slice_canvas_L_shape:
  "slice_canvas empty_env 1 10 [(0, 0), (0, 1), (1, 0)] (0, 0) 2 2 (512, 512) =
     [Upload ''1_10_0_0.png'' (256, 256), Upload ''1_10_0_1.png'' (256, 256),
      Upload ''1_10_1_0.png'' (256, 256)]"
  by (simp add: slice_canvas_def slice_cell_def py_range0_def upto_rec1 TILE_RESOLUTION_def
      empty_env_def test_env_def file_name_def str_int_def str_nat.simps)

subsection \<open>Density filtering\<close>

text \<open>On a list without repeated points the loop is the filter.\<close>

lemma remove_noise_suffix:
  assumes "length labels = length ps" "distinct (ps @ suffix)"
  shows "remove_noise (rev (enumerate 0 labels)) (ps @ suffix) =
           Inr (filter_not_noise labels ps @ suffix)"
  using assms
proof (induction labels arbitrary: ps suffix rule: rev_induct)
  case Nil
  then show ?case by (simp add: filter_not_noise_def)
next
  case (snoc l labels)
  then obtain ps' p where ps: "ps = ps' @ [p]"
    by (cases ps rule: rev_cases) auto
  have len: "length labels = length ps'"
    using snoc.prems(1) ps by simp
  have enum: "rev (enumerate 0 (labels @ [l])) = (length labels, l) # rev (enumerate 0 labels)"
    by (simp add: enumerate_append_eq)
  have d: "distinct (ps' @ p # suffix)"
    using snoc.prems(2) ps by simp
  have ih: "remove_noise (rev (enumerate 0 labels)) (ps' @ sfx) =
      Inr (filter_not_noise labels ps' @ sfx)" if "distinct (ps' @ sfx)" for sfx
    using snoc.IH [OF len that] .
  have flt: "filter_not_noise (labels @ [l]) (ps' @ [p]) =
      filter_not_noise labels ps' @ (if l = - 1 then [] else [p])"
    using len by (simp add: filter_not_noise_def)
  have start: "remove_noise (rev (enumerate 0 (labels @ [l]))) (ps @ suffix) =
      remove_noise ((length labels, l) # rev (enumerate 0 labels)) (ps' @ p # suffix)"
    by (simp only: enum ps append_assoc append_Cons append_Nil)
  show ?case
  proof (cases "l = - 1")
    case True
    have "p \<notin> set ps'" using d by simp
    then have rm: "list_remove p (ps' @ p # suffix) = Inr (ps' @ suffix)"
      by (simp add: list_remove_def remove1_append)
    have d': "distinct (ps' @ suffix)" using d by simp
    note start
    also have "remove_noise ((length labels, l) # rev (enumerate 0 labels)) (ps' @ p # suffix) =
        remove_noise (rev (enumerate 0 labels)) (ps' @ suffix)"
      using True len rm by (simp add: nth_append)
    also have "\<dots> = Inr (filter_not_noise labels ps' @ suffix)"
      by (rule ih [OF d'])
    also have "filter_not_noise labels ps' @ suffix = filter_not_noise (labels @ [l]) ps @ suffix"
      using True flt by (simp add: ps)
    finally show ?thesis .
  next
    case False
    note start
    also have "remove_noise ((length labels, l) # rev (enumerate 0 labels)) (ps' @ p # suffix) =
        remove_noise (rev (enumerate 0 labels)) (ps' @ p # suffix)"
      using False by simp
    also have "\<dots> = Inr (filter_not_noise labels ps' @ p # suffix)"
      by (rule ih [OF d])
    also have "filter_not_noise labels ps' @ p # suffix =
        filter_not_noise (labels @ [l]) ps @ suffix"
      using False flt by (simp add: ps)
    finally show ?thesis .
  qed
qed

lemma remove_noise_loop_distinct:
  "length labels = length pts \<Longrightarrow> distinct pts \<Longrightarrow>
     remove_noise_loop labels pts = Inr (filter_not_noise labels pts)"
  using remove_noise_suffix [of labels pts "[]"] by (simp add: remove_noise_loop_def)

text \<open>
  The parts of the filtering step that do not depend on the removal loop: without the
  \<open>cluster\<close> flag the points pass through, and with it DBSCAN is called on the points in
  radians with \<open>eps = cluster_epsilon / 6371.0088\<close> and
  \<open>min_samples = cluster_neighbors\<close>.
\<close>

lemma cluster_points_disabled:
  "zoom_parameters zoom = Inr p \<Longrightarrow> \<not> cluster p \<Longrightarrow> cluster_points env zoom pts = Inr pts"
  by (simp add: cluster_points_def)

lemma cluster_points_call:
  "zoom_parameters zoom = Inr p \<Longrightarrow> cluster p \<Longrightarrow>
   dbscan env (cluster_epsilon p / 6371.0088) (cluster_neighbors p) (np_radians pts) = Inr labels \<Longrightarrow>
   cluster_points env zoom pts = remove_noise_loop labels pts"
  by (simp add: cluster_points_def kms_per_radian_def)

lemma cluster_points_distinct:
  "zoom_parameters zoom = Inr p \<Longrightarrow> cluster p \<Longrightarrow>
   dbscan env (cluster_epsilon p / 6371.0088) (cluster_neighbors p) (np_radians pts) = Inr labels \<Longrightarrow>
   length labels = length pts \<Longrightarrow> distinct pts \<Longrightarrow>
   cluster_points env zoom pts = Inr (filter_not_noise labels pts)"
  by (simp add: cluster_points_call remove_noise_loop_distinct)

text \<open>
  C7. The claim is that the step keeps a point iff its label is not \<open>-1\<close>. At zoom 10
  (\<open>eps = 0.5 / 6371.0088\<close>, \<open>min_samples = 4\<close>) on the points
  \<open>[A, B, B, B, B, A]\<close>, \<open>A = (0, 0)\<close> and \<open>B = (1, 1)\<close>, whose labels are
  \<open>[-1, 0, 0, 0, 0, -1]\<close> (four venues at \<open>B\<close> form a cluster, the two at \<open>A\<close> are
  noise), the step returns \<open>[B, B, B, A]\<close>: a noise point is kept and a clustered point is
  removed.
\<close>

theorem cluster_points_duplicates:
  assumes "dbscan env (0.5 / 6371.0088) 4
             (np_radians [(0, 0), (1, 1), (1, 1), (1, 1), (1, 1), (0, 0)]) =
           Inr [- 1, 0, 0, 0, 0, - 1]"
  shows "cluster_points env 10 [(0, 0), (1, 1), (1, 1), (1, 1), (1, 1), (0, 0)] =
           Inr [(1, 1), (1, 1), (1, 1), (0, 0)]"
  using assms
  by (simp add: cluster_points_def zoom_parameters_10 profile_def kms_per_radian_def
      remove_noise_loop_def list_remove_def enumerate_eq_zip)

theorem cluster_points_duplicates_witness:
  "dbscan (test_env (\<lambda>c. []) (\<lambda>X. [- 1, 0, 0, 0, 0, - 1])) (0.5 / 6371.0088) 4
     (np_radians [(0, 0), (1, 1), (1, 1), (1, 1), (1, 1), (0, 0)]) = Inr [- 1, 0, 0, 0, 0, - 1]
   \<and> cluster_points (test_env (\<lambda>c. []) (\<lambda>X. [- 1, 0, 0, 0, 0, - 1])) 10
       [(0, 0), (1, 1), (1, 1), (1, 1), (1, 1), (0, 0)] = Inr [(1, 1), (1, 1), (1, 1), (0, 0)]"
proof -
  have d: "dbscan (test_env (\<lambda>c. []) (\<lambda>X. [- 1, 0, 0, 0, 0, - 1])) (0.5 / 6371.0088) 4
     (np_radians [(0, 0), (1, 1), (1, 1), (1, 1), (1, 1), (0, 0)]) = Inr [- 1, 0, 0, 0, 0, - 1]"
    by (simp add: test_env_def)
  show ?thesis
    using cluster_points_duplicates [OF d] d by blast
qed

text \<open>
  C8. The claim is that filtering the output of the filter changes nothing. On the input of
  C7 the first pass returns \<open>[B, B, B, A]\<close>; there no point has four points within
  \<open>eps\<close>, DBSCAN labels all four as noise, and the second pass returns the empty list.
\<close>

theorem cluster_points_twice:
  assumes "dbscan env (0.5 / 6371.0088) 4
             (np_radians [(0, 0), (1, 1), (1, 1), (1, 1), (1, 1), (0, 0)]) =
           Inr [- 1, 0, 0, 0, 0, - 1]"
    and "dbscan env (0.5 / 6371.0088) 4 (np_radians [(1, 1), (1, 1), (1, 1), (0, 0)]) =
           Inr [- 1, - 1, - 1, - 1]"
  shows "cluster_points env 10 [(0, 0), (1, 1), (1, 1), (1, 1), (1, 1), (0, 0)] =
           Inr [(1, 1), (1, 1), (1, 1), (0, 0)]
       \<and> cluster_points env 10 [(1, 1), (1, 1), (1, 1), (0, 0)] = Inr []"
  using assms
  by (simp add: cluster_points_def zoom_parameters_10 profile_def kms_per_radian_def
      remove_noise_loop_def list_remove_def enumerate_eq_zip)

theorem cluster_points_twice_witness:
  "dbscan (test_env (\<lambda>c. [])
       (\<lambda>X. if length X = 6 then [- 1, 0, 0, 0, 0, - 1] else [- 1, - 1, - 1, - 1]))
     (0.5 / 6371.0088) 4 (np_radians [(0, 0), (1, 1), (1, 1), (1, 1), (1, 1), (0, 0)]) =
     Inr [- 1, 0, 0, 0, 0, - 1]
   \<and> dbscan (test_env (\<lambda>c. [])
       (\<lambda>X. if length X = 6 then [- 1, 0, 0, 0, 0, - 1] else [- 1, - 1, - 1, - 1]))
     (0.5 / 6371.0088) 4 (np_radians [(1, 1), (1, 1), (1, 1), (0, 0)]) = Inr [- 1, - 1, - 1, - 1]
   \<and> cluster_points (test_env (\<lambda>c. [])
       (\<lambda>X. if length X = 6 then [- 1, 0, 0, 0, 0, - 1] else [- 1, - 1, - 1, - 1])) 10
       [(1, 1), (1, 1), (1, 1), (0, 0)] = Inr []"
proof -
  let ?env = "test_env (\<lambda>c. [])
       (\<lambda>X. if length X = 6 then [- 1, 0, 0, 0, 0, - 1] else [- 1, - 1, - 1, - 1])"
  have d1: "dbscan ?env (0.5 / 6371.0088) 4
      (np_radians [(0, 0), (1, 1), (1, 1), (1, 1), (1, 1), (0, 0)]) = Inr [- 1, 0, 0, 0, 0, - 1]"
    by (simp add: test_env_def np_radians_def)
  have d2: "dbscan ?env (0.5 / 6371.0088) 4 (np_radians [(1, 1), (1, 1), (1, 1), (0, 0)]) =
      Inr [- 1, - 1, - 1, - 1]"
    by (simp add: test_env_def np_radians_def)
  show ?thesis
    using cluster_points_twice [OF d1 d2] d1 d2 by blast
qed

subsection \<open>A unit without points\<close>

text \<open>
  C9. When the query returns no row, or the density filter returns the empty list, the unit
  returns normally and its only event is the query: the rasteriser is not called and
  nothing is uploaded.
\<close>

theorem skip_without_points:
  assumes "fetch_radius env category lng lat radius = Inr rows"
    and "rows = [] \<or> cluster_points env zoom (map (\<lambda>row. (snd row, fst row)) rows) = Inr []"
  shows "generate_heatmap_by_city env category zoom lat lng radius =
           (Inr (), [Query category lng lat radius])"
  using assms by (auto simp: generate_heatmap_by_city_def Let_def)

theorem skip_without_points_witness:
  "generate_heatmap_by_city (test_env (\<lambda>c. []) (\<lambda>X. [])) 1 10 0 0 17500 =
     (Inr (), [Query 1 0 0 17500])
   \<and> cluster_points (test_env (\<lambda>c. [(0, 0)]) (\<lambda>X. [- 1])) 10 [(0, 0)] = Inr []
   \<and> generate_heatmap_by_city (test_env (\<lambda>c. [(0, 0)]) (\<lambda>X. [- 1])) 1 10 0 0 17500 =
     (Inr (), [Query 1 0 0 17500])"
proof -
  have a: "fetch_radius (test_env (\<lambda>c. []) (\<lambda>X. [])) 1 0 0 17500 = Inr []"
    by (simp add: test_env_def)
  have b: "fetch_radius (test_env (\<lambda>c. [(0, 0)]) (\<lambda>X. [- 1])) 1 0 0 17500 = Inr [(0, 0)]"
    by (simp add: test_env_def)
  have c: "cluster_points (test_env (\<lambda>c. [(0, 0)]) (\<lambda>X. [- 1])) 10 [(0, 0)] = Inr []"
    by (simp add: cluster_points_def zoom_parameters_10 profile_def test_env_def
        remove_noise_loop_def list_remove_def enumerate_eq_zip)
  show ?thesis
    using skip_without_points [OF a, of 10] skip_without_points [OF b, of 10] c by simp
qed

text \<open>The same holds for one tile in tile mode.\<close>

lemma generate_tile_skip:
  assumes "convert_point_to_coords (of_int x) (of_int (y + 1)) zoom = Inr min_coords"
    and "convert_point_to_coords (of_int (x + 1)) (of_int y) zoom = Inr max_coords"
    and "fetch_envelope env category (snd min_coords) (fst min_coords)
           (snd max_coords) (fst max_coords) = Inr rows"
    and "rows = [] \<or> cluster_points env zoom (map (\<lambda>row. (snd row, fst row)) rows) = Inr []"
  shows "generate_tile env category zoom x y =
           (Inr (), [Query_envelope category (snd min_coords) (fst min_coords)
                       (snd max_coords) (fst max_coords)])"
  using assms by (auto simp: generate_tile_def Let_def)

subsection \<open>Runs over the (category, zoom) matrix\<close>

lemma for_each_append:
  "for_each body (xs @ ys) =
     (case for_each body xs of
        (Inl e, t) \<Rightarrow> (Inl e, t)
      | (Inr u, t) \<Rightarrow> (case for_each body ys of (r, t') \<Rightarrow> (r, t @ t')))"
  by (induction xs) (auto split: prod.splits sum.splits)

lemma for_each_map: "for_each body (map g xs) = for_each (\<lambda>x. body (g x)) xs"
  by (induction xs) (auto split: prod.splits sum.splits)

lemma for_each_concat:
  "for_each body (concat xss) = for_each (\<lambda>xs. for_each body xs) xss"
  by (induction xss) (auto simp: for_each_append split: prod.splits sum.splits)

lemma for_each_nested:
  "for_each (\<lambda>a. for_each (\<lambda>b. f a b) bs) as =
     for_each (\<lambda>(a, b). f a b) (concat (map (\<lambda>a. map (\<lambda>b. (a, b)) bs) as))"
  by (simp add: for_each_concat for_each_map)

lemma for_each_nested_swapped:
  "for_each (\<lambda>b. for_each (\<lambda>a. f a b) as) bs =
     for_each (\<lambda>(a, b). f a b) (concat (map (\<lambda>b. map (\<lambda>a. (a, b)) as) bs))"
  by (simp add: for_each_concat for_each_map)

lemma for_each_ok_iff:
  "fst (for_each body xs) = Inr () \<longleftrightarrow> (\<forall>x \<in> set xs. fst (body x) = Inr ())"
  by (induction xs) (auto split: prod.splits sum.splits)

lemma for_each_ok_events:
  "\<forall>x \<in> set xs. fst (body x) = Inr () \<Longrightarrow>
     for_each body xs = (Inr (), concat (map (\<lambda>x. snd (body x)) xs))"
  by (induction xs) (auto split: prod.splits sum.splits)

lemma snd_for_each_Cons:
  "snd (for_each body (x # xs)) =
     snd (body x) @ (case fst (body x) of Inl e \<Rightarrow> [] | Inr u \<Rightarrow> snd (for_each body xs))"
  by (auto split: prod.splits sum.splits)

text \<open>The nested loops of both run methods go through their list of units.\<close>

lemma all_by_city_units:
  assumes "run_method = RUN_BY_CATEGORY \<or> run_method = RUN_BY_ZOOM"
  shows "generate_all_heatmaps_by_city env lat lng run_method =
     for_each (\<lambda>(cat, z). city_unit env lat lng cat z) (unit_order run_method)"
proof -
  have c: "for_each (\<lambda>cat. for_each (\<lambda>z. city_unit env lat lng cat z) zoom_levels) categories =
      for_each (\<lambda>(cat, z). city_unit env lat lng cat z) category_major"
    unfolding category_major_def by (rule for_each_nested)
  have z: "for_each (\<lambda>z. for_each (\<lambda>cat. city_unit env lat lng cat z) categories) zoom_levels =
      for_each (\<lambda>(cat, z). city_unit env lat lng cat z) zoom_major"
    unfolding zoom_major_def by (rule for_each_nested_swapped)
  show ?thesis
    using assms
    by (auto simp: generate_all_heatmaps_by_city_def unit_order_def c z
        RUN_BY_CATEGORY_def RUN_BY_ZOOM_def)
qed

lemma all_by_tile_units:
  assumes "run_method = RUN_BY_CATEGORY \<or> run_method = RUN_BY_ZOOM"
  shows "generate_all_heatmaps_by_tile env lat lng run_method =
     for_each (\<lambda>(cat, z). generate_heatmap_by_tile env cat z lat lng) (unit_order run_method)"
proof -
  have c: "for_each (\<lambda>cat. for_each (\<lambda>z. generate_heatmap_by_tile env cat z lat lng) zoom_levels)
        categories =
      for_each (\<lambda>(cat, z). generate_heatmap_by_tile env cat z lat lng) category_major"
    unfolding category_major_def
    by (rule for_each_nested [of "\<lambda>cat z. generate_heatmap_by_tile env cat z lat lng"])
  have z: "for_each (\<lambda>z. for_each (\<lambda>cat. generate_heatmap_by_tile env cat z lat lng) categories)
        zoom_levels =
      for_each (\<lambda>(cat, z). generate_heatmap_by_tile env cat z lat lng) zoom_major"
    unfolding zoom_major_def
    by (rule for_each_nested_swapped [of "\<lambda>cat z. generate_heatmap_by_tile env cat z lat lng"])
  show ?thesis
    using assms
    by (auto simp: generate_all_heatmaps_by_tile_def unit_order_def c z
        RUN_BY_CATEGORY_def RUN_BY_ZOOM_def)
qed

lemma categories_eq: "categories = [1, 2, 3, 4]"
  by (simp add: categories_def upto_rec1)

lemma zoom_levels_eq: "zoom_levels = [10, 11, 12, 13, 14, 15, 16]"
  by (simp add: zoom_levels_def MIN_ZOOM_def MAX_ZOOM_def ZOOM_STEP_def upt_rec)

lemma tile_south_pole: "zoom < 1024 \<Longrightarrow> convert_coords_to_tile (- 90) 0 zoom = Inl ValueError"
  by (simp add: convert_coords_to_tile_def mercator_south_pole)

lemma no_noise4: "remove_noise_loop [0, 0, 0, 0] pts = Inr pts"
  by (simp add: remove_noise_loop_def enumerate_eq_zip)

lemma polar_unit:
  "generate_heatmap_by_city polar_env 1 10 0 0 radius = (Inl ValueError, [Query 1 0 0 radius])"
  by (simp add: generate_heatmap_by_city_def polar_env_def test_env_def cluster_points_def
      zoom_parameters_10 profile_def np_radians_def no_noise4 render_city_def venue_tiles_def
      tile_south_pole Let_def)

text \<open>
  C3, as amended. In city mode, in either run order, when the units before \<open>(cat, z)\<close>
  have completed and the first attempt of \<open>(cat, z)\<close>, with radius \<open>RADIUS\<close>, raises,
  the unit is attempted once more with radius \<open>RADIUS - 2500\<close>. If that attempt raises
  too, its exception ends the run: the run's events are those of the units before and of
  the two attempts, and no later unit is started. If it returns, the run goes on with the
  units after \<open>(cat, z)\<close>.
\<close>

theorem city_retry_then_abort:
  assumes m: "run_method = RUN_BY_CATEGORY \<or> run_method = RUN_BY_ZOOM"
    and order: "unit_order run_method = pre @ (cat, z) # post"
    and pre: "\<forall>u \<in> set pre. fst (city_unit env lat lng (fst u) (snd u)) = Inr ()"
    and first: "generate_heatmap_by_city env cat z lat lng RADIUS = (Inl e1, t1)"
    and retry: "generate_heatmap_by_city env cat z lat lng (RADIUS - 2500) = (r2, t2)"
  shows "generate_all_heatmaps_by_city env lat lng run_method =
     (case r2 of
        Inl e2 \<Rightarrow>
          (Inl e2, concat (map (\<lambda>u. snd (city_unit env lat lng (fst u) (snd u))) pre) @ t1 @ t2)
      | Inr u \<Rightarrow>
          (case for_each (\<lambda>(cat, z). city_unit env lat lng cat z) post of
             (r, t) \<Rightarrow>
               (r, concat (map (\<lambda>u. snd (city_unit env lat lng (fst u) (snd u))) pre)
                     @ t1 @ t2 @ t)))"
proof -
  let ?body = "\<lambda>(cat, z). city_unit env lat lng cat z"
  have p: "\<forall>u \<in> set pre. fst (?body u) = Inr ()"
    using pre by (simp add: case_prod_beta)
  have pre_run: "for_each ?body pre = (Inr (), concat (map (\<lambda>u. snd (?body u)) pre))"
    by (rule for_each_ok_events [OF p])
  have unit: "city_unit env lat lng cat z = (r2, t1 @ t2)"
    by (simp add: city_unit_def first retry)
  have "generate_all_heatmaps_by_city env lat lng run_method = for_each ?body (pre @ (cat, z) # post)"
    using all_by_city_units [OF m] order by simp
  then show ?thesis
    by (simp add: for_each_append pre_run unit case_prod_beta split: sum.splits prod.splits)
qed

theorem city_retry_then_abort_witness:
  "(RUN_BY_ZOOM = RUN_BY_CATEGORY \<or> RUN_BY_ZOOM = RUN_BY_ZOOM)
   \<and> unit_order RUN_BY_ZOOM = [] @ (1, 10) # tl zoom_major
   \<and> generate_heatmap_by_city polar_env 1 10 0 0 RADIUS = (Inl ValueError, [Query 1 0 0 17500])
   \<and> generate_heatmap_by_city polar_env 1 10 0 0 (RADIUS - 2500) =
       (Inl ValueError, [Query 1 0 0 15000])
   \<and> generate_all_heatmaps_by_city polar_env 0 0 RUN_BY_ZOOM =
       (Inl ValueError, [Query 1 0 0 17500, Query 1 0 0 15000])"
proof -
  have m: "RUN_BY_ZOOM = RUN_BY_CATEGORY \<or> RUN_BY_ZOOM = RUN_BY_ZOOM" by simp
  have order: "unit_order RUN_BY_ZOOM = [] @ (1, 10) # tl zoom_major"
    by (simp add: unit_order_def RUN_BY_ZOOM_def RUN_BY_CATEGORY_def zoom_major_def
        categories_eq zoom_levels_eq)
  have first: "generate_heatmap_by_city polar_env 1 10 0 0 RADIUS =
      (Inl ValueError, [Query 1 0 0 17500])"
    by (simp add: polar_unit RADIUS_def)
  have retry: "generate_heatmap_by_city polar_env 1 10 0 0 (RADIUS - 2500) =
      (Inl ValueError, [Query 1 0 0 15000])"
    by (simp add: polar_unit RADIUS_def)
  have "generate_all_heatmaps_by_city polar_env 0 0 RUN_BY_ZOOM =
       (Inl ValueError, [Query 1 0 0 17500, Query 1 0 0 15000])"
    using city_retry_then_abort [OF m order _ first retry] by simp
  with m order first retry show ?thesis by blast
qed

text \<open>
  C3 as stated has the run continue after a unit has failed twice. With four venues at the
  south pole in every category the first unit raises ValueError in both attempts, and the
  run ends there with that exception: no other unit is queried.
\<close>

theorem city_run_aborts:
  "generate_all_heatmaps_by_city polar_env 0 0 RUN_BY_CATEGORY =
     (Inl ValueError, [Query 1 0 0 17500, Query 1 0 0 15000])"
  by (simp add: generate_all_heatmaps_by_city_def categories_eq zoom_levels_eq city_unit_def
      polar_unit RADIUS_def)

subsection \<open>Units that complete\<close>

text \<open>
  When a unit completes: the zoom level is in the table, the latitudes of the points are
  strictly between the poles, and the queries, the clustering and the rasteriser return.
\<close>

lemma zoom_in_table: "zoom_parameters zoom = Inr p \<Longrightarrow> 10 \<le> zoom \<and> zoom \<le> 18"
  by (auto simp: zoom_parameters_def ZOOM_PARAMETERS_def split: if_splits)

lemma tile_returns:
  assumes "- 90 < lat" "lat < 90" "zoom < 1024"
  shows "\<exists>t. convert_coords_to_tile lat lng zoom = Inr t"
  using mercator_round_trip [OF assms, of lng] by (auto simp: convert_coords_to_tile_def)

lemma append_new_not_Nil: "append_new t tiles \<noteq> []"
  by (auto simp: append_new_def)

lemma add_neighbors_not_Nil: "tiles \<noteq> [] \<Longrightarrow> add_neighbors x y a b d tiles \<noteq> []"
proof -
  assume "tiles \<noteq> []"
  then have "set tiles \<noteq> {}" by simp
  then have "set (add_neighbors x y a b d tiles) \<noteq> {}"
    unfolding set_add_neighbors by blast
  then show ?thesis by auto
qed

lemma venue_tiles_ok:
  assumes t: "convert_coords_to_tile (snd venue) (fst venue) zoom = Inr tile"
    and z: "zoom_parameters zoom = Inr p"
  shows "\<exists>tiles'. venue_tiles zoom venue tiles = Inr tiles' \<and> tiles' \<noteq> []"
proof -
  have zz: "zoom < 1024" using zoom_in_table [OF z] by simp
  have n: "normalize_pt (point_coords (of_int (fst tile)) (of_int (snd tile + 1)) zoom)
      (point_coords (of_int (fst tile + 1)) (of_int (snd tile)) zoom)
      TILE_RESOLUTION TILE_RESOLUTION venue \<noteq> Inl e" for e
    by (subst normalize_pt_ok) simp_all
  show ?thesis
    using n
    by (auto simp: venue_tiles_def t z Let_def convert_point_to_coords_eq [OF zz]
        add_neighbors_not_Nil append_new_not_Nil split: sum.splits)
qed

lemma build_tiles_ok:
  assumes z: "zoom_parameters zoom = Inr p"
  shows "\<forall>v \<in> set pts. \<exists>t. convert_coords_to_tile (snd v) (fst v) zoom = Inr t \<Longrightarrow>
     \<exists>tiles'. build_tiles zoom pts tiles = Inr tiles' \<and> (pts \<noteq> [] \<longrightarrow> tiles' \<noteq> [])"
proof (induction pts arbitrary: tiles)
  case Nil
  then show ?case by simp
next
  case (Cons v pts)
  obtain t where t: "convert_coords_to_tile (snd v) (fst v) zoom = Inr t"
    using Cons.prems by auto
  obtain tiles1 where v: "venue_tiles zoom v tiles = Inr tiles1" and ne: "tiles1 \<noteq> []"
    using venue_tiles_ok [OF t z] by blast
  obtain tiles2 where r: "build_tiles zoom pts tiles1 = Inr tiles2"
    and "pts \<noteq> [] \<longrightarrow> tiles2 \<noteq> []"
    using Cons.IH [of tiles1] Cons.prems by auto
  moreover have "tiles2 \<noteq> []" if "pts = []"
    using r ne that by simp
  ultimately show ?case
    using v by auto
qed

lemma normalize_pts_ok:
  assumes "x0 \<noteq> x1" "y0 \<noteq> y1"
  shows "\<exists>ps. normalize_pts (point_coords x0 y1 z) (point_coords x1 y0 z) rx ry pts = Inr ps
           \<and> length ps = length pts"
proof (induction pts)
  case Nil
  then show ?case by simp
next
  case (Cons pt pts)
  then show ?case
    by (auto simp: normalize_pt_ok [OF assms])
qed

lemma render_city_ok:
  assumes z: "zoom_parameters zoom = Inr p"
    and pts: "pts \<noteq> []"
    and conv: "\<forall>v \<in> set pts. \<exists>t. convert_coords_to_tile (snd v) (fst v) zoom = Inr t"
    and hm: "\<And>a b c d. \<exists>img. heatmap env a b c d = Inr img"
  shows "fst (render_city env category zoom pts) = Inr ()"
proof -
  have zz: "zoom < 1024" using zoom_in_table [OF z] by simp
  obtain tiles0 where b: "build_tiles zoom pts [] = Inr tiles0" and ne: "tiles0 \<noteq> []"
    using build_tiles_ok [OF z conv, of "[]"] pts by auto
  have sne: "sort tiles0 \<noteq> []" using ne by (metis length_sort length_0_conv)
  then obtain nw se where bt: "bounding_tiles (sort tiles0) = Inr (nw, se)"
    by (cases "sort tiles0") (auto simp: bounding_tiles_def)
  obtain x y where "(x, y) \<in> set (sort tiles0)"
    using sne by (cases "sort tiles0") auto
  then have bounds: "fst nw \<le> fst se" "snd nw \<le> snd se"
    using bounding_tiles_bounds [OF bt] by force+
  have x: "real_of_int (fst nw) \<noteq> real_of_int (fst se + 1)"
    and y: "real_of_int (snd nw) \<noteq> real_of_int (snd se + 1)"
    using bounds by simp_all
  obtain ps where np: "normalize_pts
      (point_coords (of_int (fst nw)) (of_int (snd se + 1)) zoom)
      (point_coords (of_int (fst se + 1)) (of_int (snd nw)) zoom)
      (TILE_RESOLUTION * (fst se - fst nw + 1)) (TILE_RESOLUTION * (snd se - snd nw + 1)) pts = Inr ps"
    using normalize_pts_ok [OF x y] by blast
  obtain img where h: "heatmap env ps (opacity p) (dotsize p)
      (TILE_RESOLUTION * (fst se - fst nw + 1), TILE_RESOLUTION * (snd se - snd nw + 1)) = Inr img"
    using hm by blast
  show ?thesis
    using np h
    by (simp add: render_city_def b bt Let_def convert_point_to_coords_eq [OF zz] z)
qed

lemma city_completes:
  assumes z: "zoom_parameters zoom = Inr p"
    and f: "fetch_radius env category lng lat radius = Inr rows"
    and c: "cluster_points env zoom (map (\<lambda>row. (snd row, fst row)) rows) = Inr pts"
    and v: "\<forall>v \<in> set pts. - 90 < snd v \<and> snd v < 90"
    and hm: "\<And>a b c d. \<exists>img. heatmap env a b c d = Inr img"
  shows "fst (generate_heatmap_by_city env category zoom lat lng radius) = Inr ()"
proof (cases "rows = [] \<or> pts = []")
  case True
  then show ?thesis
    using f c by (auto simp: generate_heatmap_by_city_def Let_def)
next
  case False
  have zz: "zoom < 1024" using zoom_in_table [OF z] by simp
  have conv: "\<forall>v \<in> set pts. \<exists>t. convert_coords_to_tile (snd v) (fst v) zoom = Inr t"
    using v tile_returns zz by blast
  have "fst (render_city env category zoom pts) = Inr ()"
    using render_city_ok [OF z _ conv hm] False by simp
  then show ?thesis
    using False f c
    by (auto simp: generate_heatmap_by_city_def Let_def split: prod.splits)
qed

lemma no_noise_zeros: "remove_noise rest pts = Inr pts" if "\<forall>iv \<in> set rest. snd iv = 0"
  using that by (induction rest) auto

lemma origin_cluster:
  "zoom_parameters zoom = Inr p \<Longrightarrow> cluster_points origin_env zoom pts = Inr pts"
proof -
  assume z: "zoom_parameters zoom = Inr p"
  have "remove_noise_loop (map (\<lambda>x. 0) X) pts = Inr pts" for X :: "(real \<times> real) list"
    unfolding remove_noise_loop_def
    by (rule no_noise_zeros) (auto simp: enumerate_eq_zip dest: set_zip_rightD)
  then show ?thesis
    by (simp add: cluster_points_def z origin_env_def test_env_def)
qed

lemma origin_city_ok:
  assumes z: "zoom_parameters zoom = Inr p"
  shows "fst (generate_heatmap_by_city origin_env category zoom lat lng radius) = Inr ()"
proof -
  have f: "fetch_radius origin_env category lng lat radius = Inr [(0, 0), (0, 0), (0, 0), (0, 0)]"
    by (simp add: origin_env_def test_env_def)
  have hm: "\<exists>img. heatmap origin_env a b c d = Inr img" for a b c d
    by (simp add: origin_env_def test_env_def)
  show ?thesis
    by (rule city_completes [OF z f origin_cluster [OF z] _ hm]) simp
qed


lemma generate_tile_completes:
  assumes z: "zoom_parameters zoom = Inr p"
    and f: "\<And>a b c d. fetch_envelope env category a b c d = Inr rows"
    and c: "cluster_points env zoom (map (\<lambda>row. (snd row, fst row)) rows) = Inr pts"
    and hm: "\<And>a b c d. \<exists>img. heatmap env a b c d = Inr img"
  shows "fst (generate_tile env category zoom x y) = Inr ()"
proof -
  have zz: "zoom < 1024" using zoom_in_table [OF z] by simp
  have xn: "real_of_int x \<noteq> real_of_int (x + 1)" and yn: "real_of_int y \<noteq> real_of_int (y + 1)"
    by simp_all
  obtain ps where np: "normalize_pts (point_coords (of_int x) (of_int (y + 1)) zoom)
      (point_coords (of_int (x + 1)) (of_int y) zoom) TILE_RESOLUTION TILE_RESOLUTION pts = Inr ps"
    using normalize_pts_ok [OF xn yn] by blast
  obtain img where h: "heatmap env ps (opacity p) (dotsize p)
      (TILE_RESOLUTION, TILE_RESOLUTION) = Inr img"
    using hm by blast
  show ?thesis
    using np h
    by (simp add: generate_tile_def convert_point_to_coords_eq [OF zz] f c z Let_def)
qed

lemma venue_tiles_only_ok:
  "\<forall>v \<in> set rows. \<exists>t. convert_coords_to_tile (fst v) (snd v) zoom = Inr t \<Longrightarrow>
     \<exists>tiles'. venue_tiles_only zoom rows tiles = Inr tiles'"
proof (induction rows arbitrary: tiles)
  case Nil
  then show ?case by simp
next
  case (Cons v rows)
  then show ?case by (auto split: sum.splits)
qed

lemma by_tile_completes:
  assumes z: "zoom_parameters zoom = Inr p"
    and f: "fetch_radius env category lng lat RADIUS = Inr rows"
    and v: "\<forall>v \<in> set rows. - 90 < fst v \<and> fst v < 90"
    and t: "\<And>x y. fst (generate_tile env category zoom x y) = Inr ()"
  shows "fst (generate_heatmap_by_tile env category zoom lat lng) = Inr ()"
proof -
  have zz: "zoom < 1024" using zoom_in_table [OF z] by simp
  have "\<forall>v \<in> set rows. \<exists>t. convert_coords_to_tile (fst v) (snd v) zoom = Inr t"
    using v tile_returns zz by blast
  then obtain tiles where vt: "venue_tiles_only zoom rows [] = Inr tiles"
    using venue_tiles_only_ok by blast
  have "fst (for_each (\<lambda>tile. generate_tile env category zoom (fst tile) (snd tile))
          (sort tiles)) = Inr ()"
    by (simp add: for_each_ok_iff t)
  then show ?thesis
    by (auto simp: generate_heatmap_by_tile_def f vt Let_def split: prod.splits)
qed

lemma origin_tile_ok:
  assumes z: "zoom_parameters zoom = Inr p"
  shows "fst (generate_heatmap_by_tile origin_env category zoom lat lng) = Inr ()"
proof -
  have f: "fetch_radius origin_env category lng lat RADIUS = Inr [(0, 0), (0, 0), (0, 0), (0, 0)]"
    by (simp add: origin_env_def test_env_def)
  have fe: "fetch_envelope origin_env category a b c d = Inr [(0, 0), (0, 0), (0, 0), (0, 0)]"
    for a b c d
    by (simp add: origin_env_def test_env_def)
  have hm: "\<exists>img. heatmap origin_env a b c d = Inr img" for a b c d
    by (simp add: origin_env_def test_env_def)
  have t: "fst (generate_tile origin_env category zoom x y) = Inr ()" for x y
    by (rule generate_tile_completes [OF z fe origin_cluster [OF z] hm])
  show ?thesis
    by (rule by_tile_completes [OF z f _ t]) simp
qed

lemma zoom_levels_in_table: "z \<in> set zoom_levels \<Longrightarrow> \<exists>p. zoom_parameters z = Inr p"
  by (auto simp: zoom_levels_eq zoom_parameters_def ZOOM_PARAMETERS_def)

lemma city_unit_ok:
  "fst (generate_heatmap_by_city env cat z lat lng RADIUS) = Inr () \<Longrightarrow>
     city_unit env lat lng cat z = generate_heatmap_by_city env cat z lat lng RADIUS"
  by (cases "generate_heatmap_by_city env cat z lat lng RADIUS")
    (auto simp: city_unit_def)

lemma origin_city_run: "fst (generate_all_heatmaps_by_city origin_env lat lng RUN_BY_CATEGORY) = Inr ()"
proof -
  have "fst (city_unit origin_env lat lng cat z) = Inr ()" if "z \<in> set zoom_levels" for cat z
    using zoom_levels_in_table [OF that] by (auto simp: city_unit_ok origin_city_ok)
  then show ?thesis
    by (auto simp: all_by_city_units for_each_ok_iff unit_order_def category_major_def)
qed

lemma origin_tile_run: "fst (generate_all_heatmaps_by_tile origin_env lat lng RUN_BY_CATEGORY) = Inr ()"
proof -
  have "fst (generate_heatmap_by_tile origin_env cat z lat lng) = Inr ()"
    if "z \<in> set zoom_levels" for cat z
    using zoom_levels_in_table [OF that] by (auto simp: origin_tile_ok)
  then show ?thesis
    by (auto simp: all_by_tile_units for_each_ok_iff unit_order_def category_major_def)
qed

subsection \<open>The two run orders\<close>

lemma set_unit_orders: "set category_major = set zoom_major"
  by (auto simp: category_major_def zoom_major_def)

lemma uploads_concat: "uploads (concat ts) = concat (map uploads ts)"
  by (induction ts) (auto simp: uploads_def)

lemma uploads_append: "uploads (a @ b) = uploads a @ uploads b"
  by (simp add: uploads_def)

lemma uploads_Query: "uploads (Query c lng lat r # t) = uploads t"
  by (simp add: uploads_def)

lemma mset_concat_map:
  "mset (concat (map f xs)) = (\<Sum>x\<in>#mset xs. mset (f x))"
  by (induction xs) auto

lemma distinct_category_major: "distinct category_major"
  by (simp add: category_major_def categories_eq zoom_levels_eq)

lemma distinct_zoom_major: "distinct zoom_major"
  by (simp add: zoom_major_def categories_eq zoom_levels_eq)

lemma mset_unit_orders: "mset category_major = mset zoom_major"
  using set_unit_orders distinct_category_major distinct_zoom_major
  by (simp add: set_eq_iff_mset_eq_distinct)

lemma order_independent:
  fixes body :: "int \<times> nat \<Rightarrow> 'img outcome"
  shows "(fst (for_each body category_major) = Inr () \<longleftrightarrow> fst (for_each body zoom_major) = Inr ())
    \<and> (fst (for_each body category_major) = Inr () \<longrightarrow>
         mset (uploads (snd (for_each body category_major))) =
         mset (uploads (snd (for_each body zoom_major))))"
proof -
  have iff: "fst (for_each body category_major) = Inr () \<longleftrightarrow> fst (for_each body zoom_major) = Inr ()"
    by (simp add: for_each_ok_iff set_unit_orders)
  have "mset (uploads (snd (for_each body category_major))) =
         mset (uploads (snd (for_each body zoom_major)))"
    if ok: "fst (for_each body category_major) = Inr ()"
  proof -
    have a: "\<forall>x \<in> set category_major. fst (body x) = Inr ()"
      using ok by (simp add: for_each_ok_iff)
    then have b: "\<forall>x \<in> set zoom_major. fst (body x) = Inr ()"
      by (simp add: set_unit_orders)
    have "uploads (concat (map (\<lambda>x. snd (body x)) us)) =
        concat (map (\<lambda>x. uploads (snd (body x))) us)" for us
      by (simp add: uploads_concat comp_def)
    then show ?thesis
      by (simp add: for_each_ok_events [OF a] for_each_ok_events [OF b] mset_concat_map
          mset_unit_orders)
  qed
  with iff show ?thesis by blast
qed

text \<open>
  C2, as amended. In city mode and in tile mode, for one environment (point source,
  clustering and rasteriser are functions of their arguments): the category-major run
  completes without an exception iff the zoom-major run does, and then the uploads of the
  two runs, as (file name, image) pairs, are the same up to their order.
\<close>

theorem run_order_independent:
  "(fst (generate_all_heatmaps_by_city env lat lng RUN_BY_CATEGORY) = Inr ()
      \<longleftrightarrow> fst (generate_all_heatmaps_by_city env lat lng RUN_BY_ZOOM) = Inr ())
   \<and> (fst (generate_all_heatmaps_by_city env lat lng RUN_BY_CATEGORY) = Inr () \<longrightarrow>
        mset (uploads (snd (generate_all_heatmaps_by_city env lat lng RUN_BY_CATEGORY))) =
        mset (uploads (snd (generate_all_heatmaps_by_city env lat lng RUN_BY_ZOOM))))
   \<and> (fst (generate_all_heatmaps_by_tile env lat lng RUN_BY_CATEGORY) = Inr ()
      \<longleftrightarrow> fst (generate_all_heatmaps_by_tile env lat lng RUN_BY_ZOOM) = Inr ())
   \<and> (fst (generate_all_heatmaps_by_tile env lat lng RUN_BY_CATEGORY) = Inr () \<longrightarrow>
        mset (uploads (snd (generate_all_heatmaps_by_tile env lat lng RUN_BY_CATEGORY))) =
        mset (uploads (snd (generate_all_heatmaps_by_tile env lat lng RUN_BY_ZOOM))))"
proof -
  have cm: "unit_order RUN_BY_CATEGORY = category_major"
    and zm: "unit_order RUN_BY_ZOOM = zoom_major"
    by (simp_all add: unit_order_def RUN_BY_CATEGORY_def RUN_BY_ZOOM_def)
  show ?thesis
    using order_independent [of "\<lambda>(cat, z). city_unit env lat lng cat z"]
      order_independent [of "\<lambda>(cat, z). generate_heatmap_by_tile env cat z lat lng"]
    by (simp add: all_by_city_units all_by_tile_units cm zm)
qed

lemma origin_city_unit_10:
  "uploads (snd (generate_heatmap_by_city origin_env 1 10 lat lng radius)) =
       [(''1_10_511_511.png'', (256, 256)), (''1_10_511_512.png'', (256, 256)),
        (''1_10_512_511.png'', (256, 256)), (''1_10_512_512.png'', (256, 256))]"
proof -
  have r: "uploads (snd (render_city origin_env 1 10 [(0, 0), (0, 0), (0, 0), (0, 0)])) =
       [(''1_10_511_511.png'', (256, 256)), (''1_10_511_512.png'', (256, 256)),
        (''1_10_512_511.png'', (256, 256)), (''1_10_512_512.png'', (256, 256))]"
    by (simp add: render_city_def venue_tiles_origin_10 append_new_def bounding_tiles_def Let_def
        convert_point_to_coords_eq normalize_pt_ok zoom_parameters_10 profile_def origin_env_def
        test_env_def slice_canvas_def slice_cell_def py_range0_def upto_rec1 TILE_RESOLUTION_def
        uploads_def file_name_def str_int_def str_nat.simps)
  have f: "fetch_radius origin_env 1 lng lat radius = Inr [(0, 0), (0, 0), (0, 0), (0, 0)]"
    by (simp add: origin_env_def test_env_def)
  show ?thesis
    using r
    by (simp add: generate_heatmap_by_city_def f origin_cluster [OF zoom_parameters_10] Let_def
        case_prod_beta uploads_Query)
qed

lemma origin_tile_unit_10:
  "uploads (snd (generate_heatmap_by_tile origin_env 1 10 lat lng)) =
     [(''1_10_512_512.png'', (256, 256))]"
  by (simp add: generate_heatmap_by_tile_def origin_env_def test_env_def tile_origin_10
      append_new_def generate_tile_def convert_point_to_coords_eq cluster_points_def
      zoom_parameters_10 profile_def np_radians_def no_noise4 normalize_pt_ok Let_def
      TILE_RESOLUTION_def uploads_def file_name_def str_int_def str_nat.simps)

lemma category_major_first: "category_major = (1, 10) # tl category_major"
  by (simp add: category_major_def categories_eq zoom_levels_eq)

theorem run_order_independent_witness:
  "fst (generate_all_heatmaps_by_city origin_env 0 0 RUN_BY_CATEGORY) = Inr ()
   \<and> fst (generate_all_heatmaps_by_tile origin_env 0 0 RUN_BY_CATEGORY) = Inr ()
   \<and> mset (uploads (snd (generate_all_heatmaps_by_city origin_env 0 0 RUN_BY_CATEGORY))) =
       mset (uploads (snd (generate_all_heatmaps_by_city origin_env 0 0 RUN_BY_ZOOM)))
   \<and> (''1_10_511_511.png'', (256, 256)) \<in>
       set (uploads (snd (generate_all_heatmaps_by_city origin_env 0 0 RUN_BY_ZOOM)))
   \<and> mset (uploads (snd (generate_all_heatmaps_by_tile origin_env 0 0 RUN_BY_CATEGORY))) =
       mset (uploads (snd (generate_all_heatmaps_by_tile origin_env 0 0 RUN_BY_ZOOM)))
   \<and> (''1_10_512_512.png'', (256, 256)) \<in>
       set (uploads (snd (generate_all_heatmaps_by_tile origin_env 0 0 RUN_BY_ZOOM)))"
proof -
  have c: "fst (generate_all_heatmaps_by_city origin_env 0 0 RUN_BY_CATEGORY) = Inr ()"
    by (rule origin_city_run)
  have t: "fst (generate_all_heatmaps_by_tile origin_env 0 0 RUN_BY_CATEGORY) = Inr ()"
    by (rule origin_tile_run)
  have cm: "mset (uploads (snd (generate_all_heatmaps_by_city origin_env 0 0 RUN_BY_CATEGORY))) =
       mset (uploads (snd (generate_all_heatmaps_by_city origin_env 0 0 RUN_BY_ZOOM)))"
    and tm: "mset (uploads (snd (generate_all_heatmaps_by_tile origin_env 0 0 RUN_BY_CATEGORY))) =
       mset (uploads (snd (generate_all_heatmaps_by_tile origin_env 0 0 RUN_BY_ZOOM)))"
    using run_order_independent [of origin_env 0 0] c t by blast+
  have u: "unit_order RUN_BY_CATEGORY = (1, 10) # tl category_major"
    using category_major_first by (simp add: unit_order_def)
  have cu: "city_unit origin_env 0 0 1 10 = generate_heatmap_by_city origin_env 1 10 0 0 RADIUS"
    by (rule city_unit_ok) (rule origin_city_ok [OF zoom_parameters_10])
  have "(''1_10_511_511.png'', (256, 256)) \<in>
       set (uploads (snd (generate_all_heatmaps_by_city origin_env 0 0 RUN_BY_CATEGORY)))"
    by (simp add: all_by_city_units u snd_for_each_Cons uploads_append cu origin_city_unit_10
        del: for_each.simps)
  then have ce: "(''1_10_511_511.png'', (256, 256)) \<in>
       set (uploads (snd (generate_all_heatmaps_by_city origin_env 0 0 RUN_BY_ZOOM)))"
    using cm by (metis set_mset_mset)
  have "(''1_10_512_512.png'', (256, 256)) \<in>
       set (uploads (snd (generate_all_heatmaps_by_tile origin_env 0 0 RUN_BY_CATEGORY)))"
    by (simp add: all_by_tile_units u snd_for_each_Cons uploads_append origin_tile_unit_10
        del: for_each.simps)
  then have te: "(''1_10_512_512.png'', (256, 256)) \<in>
       set (uploads (snd (generate_all_heatmaps_by_tile origin_env 0 0 RUN_BY_ZOOM)))"
    using tm by (metis set_mset_mset)
  show ?thesis
    using c t cm tm ce te by blast
qed

text \<open>
  C2 as stated has no condition on the run. When a unit raises in both attempts the run
  ends there, and the units completed before it depend on the order: with venues at the
  south pole in category 2 only, the category-major run has uploaded the tiles of category 1
  at every zoom level when unit (2, 10) ends it, the zoom-major run those of category 1 at
  zoom 10 only.
\<close>

lemma tile_origin_11: "convert_coords_to_tile 0 0 11 = Inr (1024, 1024)"
  by (simp add: convert_coords_to_tile_def convert_coords_to_mercator_point_def long_to_float_def
      math_log_def math_tan_def cos_45 tan_45 floor_point_eq)

lemma zoom_parameters_11: "zoom_parameters 11 = Inr (profile 10 1 True 0.5 4)"
  by (simp add: zoom_parameters_def ZOOM_PARAMETERS_def)

lemma venue_tiles_origin_11:
  "venue_tiles 11 (0, 0) tiles =
     Inr (append_new (1024, 1023) (append_new (1023, 1023) (append_new (1023, 1024)
       (append_new (1024, 1024) tiles))))"
  by (simp add: venue_tiles_def tile_origin_11 Let_def convert_point_to_coords_eq
      normalize_pt_ok lng_eq lat_equator
      zoom_parameters_11 profile_def add_neighbors_def TILE_RESOLUTION_def)

lemma render_origin_10:
  "fst (render_city mixed_env 1 10 [(0, 0), (0, 0), (0, 0), (0, 0)]) = Inr ()
   \<and> uploads (snd (render_city mixed_env 1 10 [(0, 0), (0, 0), (0, 0), (0, 0)])) =
       [(''1_10_511_511.png'', (256, 256)), (''1_10_511_512.png'', (256, 256)),
        (''1_10_512_511.png'', (256, 256)), (''1_10_512_512.png'', (256, 256))]"
  by (simp add: render_city_def venue_tiles_origin_10 append_new_def bounding_tiles_def Let_def
      convert_point_to_coords_eq normalize_pt_ok zoom_parameters_10 profile_def mixed_env_def
      test_env_def
      slice_canvas_def slice_cell_def py_range0_def upto_rec1 TILE_RESOLUTION_def
      uploads_def file_name_def str_int_def str_nat.simps)

lemma render_origin_11:
  "fst (render_city mixed_env 1 11 [(0, 0), (0, 0), (0, 0), (0, 0)]) = Inr ()
   \<and> uploads (snd (render_city mixed_env 1 11 [(0, 0), (0, 0), (0, 0), (0, 0)])) =
       [(''1_11_1023_1023.png'', (256, 256)), (''1_11_1023_1024.png'', (256, 256)),
        (''1_11_1024_1023.png'', (256, 256)), (''1_11_1024_1024.png'', (256, 256))]"
  by (simp add: render_city_def venue_tiles_origin_11 append_new_def bounding_tiles_def Let_def
      convert_point_to_coords_eq normalize_pt_ok zoom_parameters_11 profile_def mixed_env_def
      test_env_def
      slice_canvas_def slice_cell_def py_range0_def upto_rec1 TILE_RESOLUTION_def
      uploads_def file_name_def str_int_def str_nat.simps)

lemma mixed_fetch:
  "fetch_radius mixed_env c lng lat r =
     Inr (if c = 2 then [(- 90, 0), (- 90, 0), (- 90, 0), (- 90, 0)]
          else [(0, 0), (0, 0), (0, 0), (0, 0)])"
  by (simp add: mixed_env_def test_env_def)

lemma mixed_dbscan: "dbscan mixed_env eps m X = Inr (map (\<lambda>x. 0) X)"
  by (simp add: mixed_env_def test_env_def)

lemma mixed_unit_10:
  "fst (generate_heatmap_by_city mixed_env 1 10 0 0 RADIUS) = Inr ()
   \<and> uploads (snd (generate_heatmap_by_city mixed_env 1 10 0 0 RADIUS)) =
       [(''1_10_511_511.png'', (256, 256)), (''1_10_511_512.png'', (256, 256)),
        (''1_10_512_511.png'', (256, 256)), (''1_10_512_512.png'', (256, 256))]"
  using render_origin_10
  by (simp add: generate_heatmap_by_city_def mixed_fetch mixed_dbscan cluster_points_def
      zoom_parameters_10 profile_def np_radians_def no_noise4 Let_def case_prod_beta
      uploads_Query)

lemma mixed_unit_11:
  "fst (generate_heatmap_by_city mixed_env 1 11 0 0 RADIUS) = Inr ()
   \<and> uploads (snd (generate_heatmap_by_city mixed_env 1 11 0 0 RADIUS)) =
       [(''1_11_1023_1023.png'', (256, 256)), (''1_11_1023_1024.png'', (256, 256)),
        (''1_11_1024_1023.png'', (256, 256)), (''1_11_1024_1024.png'', (256, 256))]"
  using render_origin_11
  by (simp add: generate_heatmap_by_city_def mixed_fetch mixed_dbscan cluster_points_def
      zoom_parameters_11 profile_def np_radians_def no_noise4 Let_def case_prod_beta
      uploads_Query)

lemma mixed_unit_polar:
  "generate_heatmap_by_city mixed_env 2 10 0 0 radius = (Inl ValueError, [Query 2 0 0 radius])"
  by (simp add: generate_heatmap_by_city_def mixed_fetch mixed_dbscan cluster_points_def
      zoom_parameters_10 profile_def np_radians_def no_noise4 render_city_def venue_tiles_def
      tile_south_pole Let_def)

theorem run_orders_differ:
  "set (uploads (snd (generate_all_heatmaps_by_city mixed_env 0 0 RUN_BY_CATEGORY))) \<noteq>
   set (uploads (snd (generate_all_heatmaps_by_city mixed_env 0 0 RUN_BY_ZOOM)))"
proof -
  obtain t10 where g10: "generate_heatmap_by_city mixed_env 1 10 0 0 RADIUS = (Inr (), t10)"
    and u10: "uploads t10 =
       [(''1_10_511_511.png'', (256, 256)), (''1_10_511_512.png'', (256, 256)),
        (''1_10_512_511.png'', (256, 256)), (''1_10_512_512.png'', (256, 256))]"
    using mixed_unit_10 by (cases "generate_heatmap_by_city mixed_env 1 10 0 0 RADIUS") auto
  obtain t11 where g11: "generate_heatmap_by_city mixed_env 1 11 0 0 RADIUS = (Inr (), t11)"
    and u11: "uploads t11 =
       [(''1_11_1023_1023.png'', (256, 256)), (''1_11_1023_1024.png'', (256, 256)),
        (''1_11_1024_1023.png'', (256, 256)), (''1_11_1024_1024.png'', (256, 256))]"
    using mixed_unit_11 by (cases "generate_heatmap_by_city mixed_env 1 11 0 0 RADIUS") auto
  have c10: "city_unit mixed_env 0 0 1 10 = (Inr (), t10)"
    by (simp add: city_unit_def g10)
  have c11: "city_unit mixed_env 0 0 1 11 = (Inr (), t11)"
    by (simp add: city_unit_def g11)
  have c2: "city_unit mixed_env 0 0 2 10 =
      (Inl ValueError, [Query 2 0 0 17500, Query 2 0 0 15000])"
    by (simp add: city_unit_def mixed_unit_polar RADIUS_def)
  have by_zoom: "generate_all_heatmaps_by_city mixed_env 0 0 RUN_BY_ZOOM =
      (Inl ValueError, t10 @ [Query 2 0 0 17500, Query 2 0 0 15000])"
    by (simp add: generate_all_heatmaps_by_city_def RUN_BY_ZOOM_def RUN_BY_CATEGORY_def
        categories_eq zoom_levels_eq c10 c2)
  have "\<exists>rest. snd (generate_all_heatmaps_by_city mixed_env 0 0 RUN_BY_CATEGORY) =
      t10 @ t11 @ rest"
    by (simp add: generate_all_heatmaps_by_city_def RUN_BY_CATEGORY_def categories_eq
        zoom_levels_eq snd_for_each_Cons c10 c11 del: for_each.simps)
  then obtain rest where by_cat:
      "snd (generate_all_heatmaps_by_city mixed_env 0 0 RUN_BY_CATEGORY) = t10 @ t11 @ rest"
    by blast
  have "(''1_11_1023_1023.png'', (256, 256)) \<in>
      set (uploads (snd (generate_all_heatmaps_by_city mixed_env 0 0 RUN_BY_CATEGORY)))"
    by (simp add: by_cat uploads_append u11)
  moreover have "(''1_11_1023_1023.png'', (256, 256)) \<notin>
      set (uploads (snd (generate_all_heatmaps_by_city mixed_env 0 0 RUN_BY_ZOOM)))"
    by (simp add: by_zoom uploads_append u10 uploads_Query) (simp add: uploads_def)
  ultimately show ?thesis by blast
qed

end
